theory Spec2Isabelle
  imports Complex_Main "HOL-Library.Word"
begin

section \<open>JavaScript values used by the components\<close>

text \<open>
  A JavaScript string is a sequence of UTF-16 code units. A string literal of the source
  is written \<open>lit ''...''\<close>.
\<close>

type_synonym jsstring = "16 word list"

definition lit :: "string \<Rightarrow> jsstring" where
  "lit s = map of_char s"

text \<open>
  The code units that \<open>String.prototype.trim\<close> removes: the ECMAScript WhiteSpace and
  LineTerminator code points (all of them lie in the basic plane).
\<close>

definition isWhiteSpace :: "16 word \<Rightarrow> bool" where
  "isWhiteSpace c \<longleftrightarrow>
     c = 0x0009 \<or> c = 0x000A \<or> c = 0x000B \<or> c = 0x000C \<or> c = 0x000D \<or>
     c = 0x0020 \<or> c = 0x00A0 \<or> c = 0x1680 \<or>
     (0x2000 \<le> c \<and> c \<le> 0x200A) \<or>
     c = 0x2028 \<or> c = 0x2029 \<or> c = 0x202F \<or> c = 0x205F \<or> c = 0x3000 \<or> c = 0xFEFF"

definition trim :: "jsstring \<Rightarrow> jsstring" where
  "trim s = rev (dropWhile isWhiteSpace (rev (dropWhile isWhiteSpace s)))"

text \<open>
  A JavaScript number, as far as the code looks at it: the code only compares numbers and
  tests them with \<open>isNaN\<close>. Every finite double is a real number and the comparison of
  finite doubles is the comparison of the reals they denote.
\<close>

datatype number = NaN | NegInfinity | Finite real | PosInfinity

fun isNaN :: "number \<Rightarrow> bool" where
  "isNaN NaN = True"
| "isNaN _ = False"

text \<open>\<open>a < b\<close> of JavaScript: false as soon as one side is NaN.\<close>

fun num_lt :: "number \<Rightarrow> number \<Rightarrow> bool" where
  "num_lt NaN _ = False"
| "num_lt _ NaN = False"
| "num_lt NegInfinity NegInfinity = False"
| "num_lt NegInfinity _ = True"
| "num_lt (Finite a) (Finite b) = (a < b)"
| "num_lt (Finite a) PosInfinity = True"
| "num_lt (Finite a) NegInfinity = False"
| "num_lt PosInfinity _ = False"

text \<open>\<open>a > b\<close> of JavaScript.\<close>

definition num_gt :: "number \<Rightarrow> number \<Rightarrow> bool" where
  "num_gt a b = num_lt b a"

text \<open>A thrown value: an \<open>Error\<close> object with its message, or anything else.\<close>

datatype js_exn = Error jsstring | Thrown

text \<open>The browser's \<open>File\<close>: its name and its media type.\<close>

record js_file =
  file_name :: jsstring
  file_type :: jsstring

text \<open>The options object handed to \<open>navigator.geolocation.getCurrentPosition\<close>.\<close>

record position_options =
  enableHighAccuracy :: bool
  timeout :: nat
  maximumAge :: nat

datatype console_entry =
  ConsoleLog jsstring
| ConsoleWarn jsstring
| ConsoleError jsstring

section \<open>ReportForm.svelte\<close>

text \<open>\<open>ReportData\<close>, the value handed to the \<open>onSubmit\<close> callback.\<close>

record ReportData =
  rd_pollutionType :: jsstring
  rd_description :: jsstring
  rd_latitude :: "number option"
  rd_longitude :: "number option"
  rd_imageFile :: "js_file option"

text \<open>
  The component's state variables. \<open>console\<close> collects what the component writes to the
  console, \<open>geo_requests\<close> the calls of \<open>getCurrentPosition\<close> it makes.
\<close>

record form_state =
  pollutionType :: jsstring
  description :: jsstring
  latitude :: "number option"
  longitude :: "number option"
  imageFile :: "js_file option"
  imagePreviewUrl :: "jsstring option"
  isSubmitting :: bool
  locationStatus :: jsstring
  formError :: "jsstring option"
  console :: "console_entry list"
  geo_requests :: "position_options list"

definition initial_form :: form_state where
  "initial_form =
     \<lparr>pollutionType = lit ''Trash Dump'', description = [], latitude = None, longitude = None,
      imageFile = None, imagePreviewUrl = None, isSubmitting = False, locationStatus = [],
      formError = None, console = [], geo_requests = []\<rparr>"

subsection \<open>getCurrentLocation\<close>

text \<open>
  What the browser answers: the position callback with \<open>coords.latitude\<close> and
  \<open>coords.longitude\<close>, or the error callback with a \<open>GeolocationPositionError\<close> and its
  \<open>code\<close>.
\<close>

datatype geo_result = Position number number | PositionError nat

definition PERMISSION_DENIED :: nat where "PERMISSION_DENIED = 1"
definition POSITION_UNAVAILABLE :: nat where "POSITION_UNAVAILABLE = 2"
definition TIMEOUT :: nat where "TIMEOUT = 3"

text \<open>
  The environment of one call: \<open>browser\<close> of \<open>$app/environment\<close>, whether
  \<open>navigator.geolocation\<close> exists, the browser's answer to the request with the given
  options, and \<open>Number.prototype.toFixed(5)\<close>.
\<close>

record geo_env =
  browser :: bool
  geolocation :: bool
  getCurrentPosition :: "position_options \<Rightarrow> geo_result"
  toFixed5 :: "number \<Rightarrow> jsstring"

definition location_options :: position_options where
  "location_options = \<lparr>enableHighAccuracy = True, timeout = 10000, maximumAge = 0\<rparr>"

definition getCurrentLocation :: "geo_env \<Rightarrow> form_state \<Rightarrow> form_state" where
  "getCurrentLocation env f =
    (let f1 = f\<lparr>locationStatus := lit ''Getting location...'', formError := None\<rparr> in
     if \<not> browser env \<or> \<not> geolocation env then
       f1\<lparr>locationStatus := lit ''Geolocation is not supported by your browser.''\<rparr>
     else
       let f2 = f1\<lparr>geo_requests := geo_requests f1 @ [location_options]\<rparr> in
       case getCurrentPosition env location_options of
         Position lat lon \<Rightarrow>
           f2\<lparr>latitude := Some lat, longitude := Some lon,
              locationStatus :=
                lit ''Location: '' @ toFixed5 env lat @ lit '', '' @ toFixed5 env lon\<rparr>
       | PositionError code \<Rightarrow>
           f2\<lparr>locationStatus :=
                (if code = PERMISSION_DENIED then
                   lit ''Permission denied. Please enable location access.''
                 else if code = POSITION_UNAVAILABLE then lit ''Location unavailable.''
                 else if code = TIMEOUT then lit ''Location request timed out.''
                 else lit ''Failed to get location.''),
              latitude := None, longitude := None\<rparr>)"

subsection \<open>handleSubmit\<close>

text \<open>The condition of the second \<open>if\<close> of \<open>handleSubmit\<close>, disjunct by disjunct.\<close>

fun invalid_location :: "number option \<Rightarrow> number option \<Rightarrow> bool" where
  "invalid_location None _ = True"
| "invalid_location _ None = True"
| "invalid_location (Some lat) (Some lon) =
     (isNaN lat \<or> isNaN lon \<or>
      num_lt lat (Finite (- 90)) \<or> num_gt lat (Finite 90) \<or>
      num_lt lon (Finite (- 180)) \<or> num_gt lon (Finite 180))"

text \<open>
  \<open>onSubmit\<close> is the callback of the parent: it works on the parent's world \<open>'w\<close> and
  either completes (\<open>None\<close>) or throws.
\<close>

definition handleSubmit ::
  "(ReportData \<Rightarrow> 'w \<Rightarrow> js_exn option \<times> 'w) \<Rightarrow> form_state \<Rightarrow> 'w \<Rightarrow> form_state \<times> 'w" where
  "handleSubmit onSubmit f w =
    (let f1 = f\<lparr>formError := None\<rparr> in
     if pollutionType f1 = [] \<or> trim (description f1) = [] then
       (f1\<lparr>formError := Some (lit ''All fields marked with * are required.'')\<rparr>, w)
     else if invalid_location (latitude f1) (longitude f1) then
       (f1\<lparr>formError := Some (lit ''Please provide a valid location.'')\<rparr>, w)
     else
       let f2 = f1\<lparr>isSubmitting := True, locationStatus := []\<rparr>;
           reportData = \<lparr>rd_pollutionType = pollutionType f2,
                         rd_description = trim (description f2),
                         rd_latitude = latitude f2,
                         rd_longitude = longitude f2,
                         rd_imageFile = imageFile f2\<rparr>
       in case onSubmit reportData w of
            (None, w') \<Rightarrow>
              (f2\<lparr>console := console f2 @ [ConsoleLog (lit ''Report submitted successfully.'')],
                  isSubmitting := False\<rparr>, w')
          | (Some error, w') \<Rightarrow>
              (f2\<lparr>console := console f2 @ [ConsoleError (lit ''Submission failed:'')],
                  formError := Some (lit ''Failed to submit: '' @
                    (case error of Error message \<Rightarrow> message | Thrown \<Rightarrow> lit ''Unknown error'')),
                  isSubmitting := False\<rparr>, w'))"

section \<open>+page.svelte\<close>

text \<open>The \<open>error\<close> object of a backend answer: only its \<open>message\<close> is read.\<close>

record backend_error =
  message :: jsstring

text \<open>\<open>reportToInsert\<close>, the row handed to \<open>insert\<close>.\<close>

record report_insert =
  ins_latitude :: number
  ins_longitude :: number
  ins_pollution_type :: jsstring
  ins_description :: jsstring
  ins_image_url :: "jsstring option"

text \<open>
  What the run of \<open>handleReportSubmit\<close> does to the outside, in order: the calls of the
  backend (\<open>storage.upload\<close>, \<open>storage.getPublicUrl\<close>, \<open>insert\<close>), the call of the map
  component's \<open>refreshData\<close>, and the console.
\<close>

datatype effect =
  StorageUpload jsstring js_file
| GetPublicUrl jsstring
| InsertReport report_insert
| RefreshData
| Console console_entry

text \<open>The callback handed to \<open>setTimeout\<close>: \<open>submissionMessage = null\<close>.\<close>

datatype timer_callback = ClearSubmissionMessage

text \<open>
  The page's variables. \<open>supabase\<close> and \<open>mapDisplayComponent\<close> say whether the reference is
  non-null. \<open>timers\<close> are the pending timeouts with the milliseconds left to each,
  \<open>effects\<close> the trace of what the page did so far.
\<close>

record page_state =
  submissionMessage :: "jsstring option"
  isProcessing :: bool
  supabase :: bool
  mapDisplayComponent :: bool
  timers :: "(nat \<times> timer_callback) list"
  effects :: "effect list"

text \<open>
  The environment of one run: the clock and the random suffix that name the upload, and
  the answers of the backend (\<open>uploadError\<close>, \<open>urlData\<close> with its \<open>publicUrl\<close>,
  \<open>insertError\<close>; \<open>None\<close> is null).
\<close>

record submit_env =
  date_now :: nat
  randomSuffix :: jsstring
  upload :: "jsstring \<Rightarrow> js_file \<Rightarrow> backend_error option"
  getPublicUrl :: "jsstring \<Rightarrow> jsstring option option"
  insert_row :: "report_insert \<Rightarrow> backend_error option"

text \<open>The decimal digits of a natural number, as a template literal prints it.\<close>

function decimal :: "nat \<Rightarrow> jsstring" where
  "decimal n =
     (if n < 10 then [of_nat (48 + n)] else decimal (n div 10) @ [of_nat (48 + n mod 10)])"
  by pat_completeness auto
termination
  by (relation "measure (\<lambda>n. n)") auto

declare decimal.simps [simp del]

text \<open>\<open>name.split('.').pop()\<close>: what follows the last dot, the whole name if it has none.\<close>

definition fileExt_of :: "jsstring \<Rightarrow> jsstring" where
  "fileExt_of name = rev (takeWhile (\<lambda>c. c \<noteq> 0x2E) (rev name))"

definition emit :: "effect \<Rightarrow> page_state \<Rightarrow> page_state" where
  "emit e p = p\<lparr>effects := effects p @ [e]\<rparr>"

text \<open>The \<open>if (mapDisplayComponent)\<close> at the end of the \<open>try\<close> block.\<close>

definition refresh_map :: "page_state \<Rightarrow> page_state" where
  "refresh_map p =
     (if mapDisplayComponent p then emit RefreshData p
      else emit (Console (ConsoleWarn
             (lit ''Could not refresh map - component reference not available.''))) p)"

text \<open>
  The \<open>try\<close> block of \<open>handleReportSubmit\<close>, in three stages. Each gives the state
  where the block is left, and the exception when it is left by a \<open>throw\<close>.

  Last stage: the null test of the coordinates, the insert and the refresh of the map.
\<close>

definition save_report ::
  "submit_env \<Rightarrow> ReportData \<Rightarrow> jsstring option \<Rightarrow> page_state \<Rightarrow> page_state \<times> js_exn option" where
  "save_report env reportDetails uploadedImageUrl p =
    (case rd_latitude reportDetails of
       None \<Rightarrow> (p, Some (Error (lit ''Latitude or Longitude is missing'')))
     | Some lat \<Rightarrow>
        (case rd_longitude reportDetails of
           None \<Rightarrow> (p, Some (Error (lit ''Latitude or Longitude is missing'')))
         | Some lon \<Rightarrow>
            (let reportToInsert =
                   \<lparr>ins_latitude = lat, ins_longitude = lon,
                    ins_pollution_type = rd_pollutionType reportDetails,
                    ins_description = rd_description reportDetails,
                    ins_image_url = uploadedImageUrl\<rparr>;
                 p6 = emit (InsertReport reportToInsert) p
             in case insert_row env reportToInsert of
                  Some insertError \<Rightarrow>
                    (emit (Console (ConsoleError (lit ''Database Insert error:''))) p6,
                     Some (Error (lit ''Failed to save report: '' @ message insertError)))
                | None \<Rightarrow>
                    (refresh_map
                       (emit (Console (ConsoleLog
                           (lit ''Report successfully inserted into database'')))
                         (p6\<lparr>submissionMessage :=
                               Some (lit ''Report submitted successfully!'')\<rparr>)),
                     None))))"

text \<open>\<open>!urlData || !urlData.publicUrl\<close>: the public URL, null when it is missing or empty.\<close>

definition public_url :: "jsstring option option \<Rightarrow> jsstring option" where
  "public_url urlData =
     (case urlData of
        None \<Rightarrow> None
      | Some None \<Rightarrow> None
      | Some (Some publicUrl) \<Rightarrow> if publicUrl = [] then None else Some publicUrl)"

text \<open>Middle stage, after a successful upload: the public URL of the image.\<close>

definition after_upload ::
  "submit_env \<Rightarrow> ReportData \<Rightarrow> jsstring \<Rightarrow> page_state \<Rightarrow> page_state \<times> js_exn option" where
  "after_upload env reportDetails filePath p =
    (let p3 = emit (GetPublicUrl filePath) p;
         uploadedImageUrl = public_url (getPublicUrl env filePath);
         p4 = (case uploadedImageUrl of
                 None \<Rightarrow> emit (Console (ConsoleWarn (lit
                   ''Could not get public URL for uploaded image, but upload succeeded''))) p3
               | Some url \<Rightarrow> emit (Console (ConsoleLog (lit ''Image uploaded:''))) p3)
     in save_report env reportDetails uploadedImageUrl
          (p4\<lparr>submissionMessage := Some (lit ''Saving report details...'')\<rparr>))"

text \<open>First stage: everything hangs on \<open>if (reportDetails.imageFile)\<close>.\<close>

definition try_block :: "submit_env \<Rightarrow> ReportData \<Rightarrow> page_state \<Rightarrow> page_state \<times> js_exn option" where
  "try_block env reportDetails p =
    (case rd_imageFile reportDetails of
       None \<Rightarrow> (refresh_map p, None)
     | Some file \<Rightarrow>
        (let p1 = p\<lparr>submissionMessage := Some (lit ''Uploading image'')\<rparr>;
             fileExt = fileExt_of (file_name file);
             filePath = lit ''public/'' @ decimal (date_now env) @ lit ''_'' @ randomSuffix env
                        @ lit ''.'' @ fileExt;
             p2 = emit (StorageUpload filePath file) p1
         in case upload env filePath file of
              Some uploadError \<Rightarrow>
                (emit (Console (ConsoleError (lit ''Image Upload Error:''))) p2,
                 Some (Error (lit ''Image upload failed: '' @ message uploadError)))
            | None \<Rightarrow> after_upload env reportDetails filePath p2))"

text \<open>The \<open>catch\<close> block: \<open>error.message || 'An unknown error ...'\<close>.\<close>

definition catch_block :: "js_exn \<Rightarrow> page_state \<Rightarrow> page_state" where
  "catch_block error p =
     (emit (Console (ConsoleError (lit ''Submission failed: ''))) p)
       \<lparr>submissionMessage := Some (lit ''Error: '' @
          (case error of
             Error m \<Rightarrow> if m = [] then lit ''An unknown error occurred during submission'' else m
           | Thrown \<Rightarrow> lit ''An unknown error occurred during submission''))\<rparr>"

text \<open>The \<open>finally\<close> block: \<open>setTimeout(() => { submissionMessage = null }, 7000)\<close>.\<close>

definition finally_block :: "page_state \<Rightarrow> page_state" where
  "finally_block p =
     p\<lparr>isProcessing := False, timers := timers p @ [(7000, ClearSubmissionMessage)]\<rparr>"

definition handleReportSubmit :: "submit_env \<Rightarrow> ReportData \<Rightarrow> page_state \<Rightarrow> page_state" where
  "handleReportSubmit env reportDetails p =
    (let p1 = emit (Console (ConsoleLog (lit ''Received report data in parent:'')))
                (p\<lparr>isProcessing := True, submissionMessage := Some (lit ''Processing report...'')\<rparr>)
     in if \<not> supabase p1 then
          emit (Console (ConsoleError (lit ''Supabase client not initialized'')))
            (p1\<lparr>submissionMessage := Some (lit ''Error: Backend connection not ready. Please refresh''),
                isProcessing := False\<rparr>)
        else
          (case try_block env reportDetails p1 of
             (p2, None) \<Rightarrow> finally_block p2
           | (p2, Some error) \<Rightarrow> finally_block (catch_block error p2)))"

text \<open>The page's handler as the form's \<open>onSubmit\<close>: it catches what it throws.\<close>

definition page_onSubmit :: "submit_env \<Rightarrow> ReportData \<Rightarrow> page_state \<Rightarrow> js_exn option \<times> page_state" where
  "page_onSubmit env reportDetails p = (None, handleReportSubmit env reportDetails p)"

text \<open>Running a timer's callback.\<close>

fun run_callback :: "timer_callback \<Rightarrow> page_state \<Rightarrow> page_state" where
  "run_callback ClearSubmissionMessage p = p\<lparr>submissionMessage := None\<rparr>"

text \<open>
  The event loop while \<open>d\<close> milliseconds pass and nothing else happens: the timeouts that
  are due run in the order they were set, the others have \<open>d\<close> milliseconds less to wait.
\<close>

definition elapse :: "nat \<Rightarrow> page_state \<Rightarrow> page_state" where
  "elapse d p =
     foldl (\<lambda>q cb. run_callback cb q)
       (p\<lparr>timers := map (\<lambda>(r, cb). (r - d, cb)) (filter (\<lambda>(r, cb). d < r) (timers p))\<rparr>)
       (map snd (filter (\<lambda>(r, cb). r \<le> d) (timers p)))"

text \<open>Is the effect a write to the backend?\<close>

fun is_upload :: "effect \<Rightarrow> bool" where
  "is_upload (StorageUpload path file) = True"
| "is_upload _ = False"

fun is_insert :: "effect \<Rightarrow> bool" where
  "is_insert (InsertReport r) = True"
| "is_insert _ = False"

section \<open>MapDisplay.svelte\<close>

text \<open>
  \<open>PollutionReport\<close>, a row as the backend returns it. The code tests the coordinates
  against null and the type with \<open>?.\<close>, so these may be null (\<open>None\<close>).
\<close>

record PollutionReport =
  pr_id :: jsstring
  pr_created_at :: jsstring
  pr_latitude :: "number option"
  pr_longitude :: "number option"
  pr_pollution_type :: "jsstring option"
  pr_description :: jsstring
  pr_image_url :: "jsstring option"

text \<open>
  The popup of a marker: the four values that the HTML template of \<open>popupContent\<close>
  interpolates (the fixed markup around them is left out).
\<close>

record popup_content =
  popup_title :: jsstring
  popup_text :: jsstring
  popup_image :: "jsstring option"
  popup_reported :: jsstring

text \<open>A Leaflet marker: its position and the popup bound to it.\<close>

record marker =
  marker_lat :: number
  marker_lng :: number
  marker_popup :: popup_content

text \<open>
  The Leaflet map widget: its view, its tile layers and whether the marker layer group
  is on the map (\<open>hasLayer(markersLayer)\<close>).
\<close>

record leaflet_map =
  map_center :: "real \<times> real"
  map_zoom :: nat
  tile_layers :: "jsstring list"
  has_markers_layer :: bool

text \<open>The answer \<open>{ data, error }\<close> of the select query.\<close>

record select_result =
  res_data :: "PollutionReport list option"
  res_error :: "backend_error option"

text \<open>
  The component's variables. \<open>map_supabase\<close>, \<open>mapContainer\<close> and \<open>L\<close> say whether the
  reference is non-null; \<open>markersLayer\<close> holds the layers of the layer group.
  \<open>map_console\<close> is what the component wrote to the console, \<open>queries\<close> the limit of
  each select query it sent to the backend.
\<close>

record map_state =
  map_supabase :: bool
  mapContainer :: bool
  mapInstance :: "leaflet_map option"
  markersLayer :: "marker list option"
  isLoading :: bool
  mapError :: "jsstring option"
  L :: bool
  reports :: "PollutionReport list"
  map_console :: "console_entry list"
  queries :: "nat list"

text \<open>
  The environment of the component: \<open>browser\<close> of \<open>$app/environment\<close>, the outcome
  of \<open>import('leaflet')\<close> (rejected, or whether the default export is non-null), whether
  \<open>L.map\<close> throws, the backend's answer to the select query, and
  \<open>new Date(s).toLocaleString()\<close>.
\<close>

record map_env =
  in_browser :: bool
  import_leaflet :: "js_exn + bool"
  L_map :: "js_exn option"
  select_reports :: select_result
  toLocaleString :: "jsstring \<Rightarrow> jsstring"

definition initialCoords :: "real \<times> real" where
  "initialCoords = (27.7172, 85.324)"

definition initialZoom :: nat where
  "initialZoom = 13"

definition clog :: "console_entry \<Rightarrow> map_state \<Rightarrow> map_state" where
  "clog e s = s\<lparr>map_console := map_console s @ [e]\<rparr>"

text \<open>
  \<open>L.marker([lat, lng])\<close>: Leaflet's \<open>LatLng\<close> constructor throws on a NaN coordinate.
\<close>

definition L_marker :: "number \<Rightarrow> number \<Rightarrow> js_exn + (number \<times> number)" where
  "L_marker lat lng =
     (if isNaN lat \<or> isNaN lng then Inl (Error (lit ''Invalid LatLng object'')) else Inr (lat, lng))"

definition popupContent :: "map_env \<Rightarrow> PollutionReport \<Rightarrow> popup_content" where
  "popupContent env report =
     \<lparr>popup_title =
        (case pr_pollution_type report of
           None \<Rightarrow> lit ''Report''
         | Some t \<Rightarrow>
             (let r = map (\<lambda>c. if c = 0x5F then 0x20 else c) t
              in if r = [] then lit ''Report'' else r)),
      popup_text =
        (if pr_description report = [] then lit ''No description provided.''
         else pr_description report),
      popup_image =
        (case pr_image_url report of
           None \<Rightarrow> None
         | Some url \<Rightarrow> if url = [] then None else Some url),
      popup_reported = toLocaleString env (pr_created_at report)\<rparr>"

text \<open>The test that skips a report: the condition of the \<open>if\<close> in the loop body.\<close>

fun invalid_coordinates :: "number option \<Rightarrow> number option \<Rightarrow> bool" where
  "invalid_coordinates None _ = True"
| "invalid_coordinates _ None = True"
| "invalid_coordinates (Some lat) (Some lng) = (isNaN lat \<or> isNaN lng)"

text \<open>
  The body of \<open>reports.forEach\<close> for one report. Whatever the \<open>try\<close> block throws
  (a null \<open>L\<close> or \<open>markersLayer\<close>, or \<open>L.marker\<close>) is caught and logged.
\<close>

definition marker_error :: "PollutionReport \<Rightarrow> map_state \<Rightarrow> map_state" where
  "marker_error report s =
     clog (ConsoleError (lit ''[MapDisplay] Error creating marker for report ID ''
                          @ pr_id report @ lit '':'')) s"

definition skip_warning :: "PollutionReport \<Rightarrow> console_entry" where
  "skip_warning report =
     ConsoleWarn (lit ''[MapDisplay] Skipping report ID '' @ pr_id report
                  @ lit '' due to invalid coordinates.'')"

definition render_report :: "map_env \<Rightarrow> map_state \<Rightarrow> PollutionReport \<Rightarrow> map_state" where
  "render_report env s report =
    (if invalid_coordinates (pr_latitude report) (pr_longitude report) then
       clog (skip_warning report) s
     else
       (case (pr_latitude report, pr_longitude report) of
          (Some lat, Some lng) \<Rightarrow>
            (if \<not> L s then marker_error report s
             else case L_marker lat lng of
                    Inl e \<Rightarrow> marker_error report s
                  | Inr (mlat, mlng) \<Rightarrow>
                      (case markersLayer s of
                         None \<Rightarrow> marker_error report s
                       | Some layers \<Rightarrow>
                           s\<lparr>markersLayer := Some (layers @
                               [\<lparr>marker_lat = mlat, marker_lng = mlng,
                                 marker_popup = popupContent env report\<rparr>])\<rparr>))
        | _ \<Rightarrow> s))"

text \<open>\<open>reports.forEach(...)\<close>: the loop over the reports, in order.\<close>

definition render_reports :: "map_env \<Rightarrow> PollutionReport list \<Rightarrow> map_state \<Rightarrow> map_state" where
  "render_reports env rs s = foldl (render_report env) s rs"

definition updateMarkers :: "map_env \<Rightarrow> map_state \<Rightarrow> map_state" where
  "updateMarkers env s =
    (case mapInstance s of
       None \<Rightarrow>
         clog (ConsoleWarn (lit ''[MapDisplay] updateMarkers called before mapInstance is ready.'')) s
     | Some m \<Rightarrow>
        (case markersLayer s of
           None \<Rightarrow>
             clog (ConsoleWarn
               (lit ''[MapDisplay] updateMarkers called before markersLayer is ready.'')) s
         | Some old \<Rightarrow>
            if \<not> L s then
              clog (ConsoleWarn
                (lit ''[MapDisplay] updateMarkers called before Leaflet (L) is loaded.'')) s
            else
              (let s1 = clog (ConsoleLog (lit ''[MapDisplay] Updating markers...'')) s;
                   s2 = s1\<lparr>markersLayer := Some []\<rparr>;
                   s3 = render_reports env (reports s2) s2;
                   s4 = (if \<not> has_markers_layer m then
                           (clog (ConsoleWarn (lit
                              ''[MapDisplay] markersLayer was not found on map, adding it again.'')) s3)
                             \<lparr>mapInstance := Some (m\<lparr>has_markers_layer := True\<rparr>)\<rparr>
                         else s3)
               in clog (ConsoleLog (lit ''[MapDisplay] Finished updating markers. ''
                          @ decimal (length (reports s4)) @ lit '' reports processed.'')) s4)))"

definition fetchReports :: "map_env \<Rightarrow> map_state \<Rightarrow> map_state" where
  "fetchReports env s =
    (let s1 = clog (ConsoleLog (lit ''[MapDisplay] Fetching pollution reports...''))
                (s\<lparr>mapError := None\<rparr>)
     in if \<not> map_supabase s1 then
          (clog (ConsoleError
             (lit ''[MapDisplay] Supabase client not available for fetching reports.'')) s1)
            \<lparr>mapError := Some (lit ''Backend connection error.''), isLoading := False\<rparr>
        else
          (let s2 = s1\<lparr>queries := queries s1 @ [500]\<rparr> in
           case res_error (select_reports env) of
             Some err \<Rightarrow>
               updateMarkers env
                 ((clog (ConsoleError (lit ''[MapDisplay] Error fetching reports:'')) s2)
                    \<lparr>mapError := Some (lit ''Failed to load reports: '' @ message err),
                     reports := []\<rparr>)
           | None \<Rightarrow>
               (let s3 = s2\<lparr>reports := (case res_data (select_reports env) of
                                           None \<Rightarrow> [] | Some d \<Rightarrow> d)\<rparr>
                in updateMarkers env
                     (clog (ConsoleLog (lit ''[MapDisplay] Fetched ''
                        @ decimal (length (reports s3)) @ lit '' reports.'')) s3))))"

definition refreshData :: "map_env \<Rightarrow> map_state \<Rightarrow> map_state" where
  "refreshData env s =
    (case mapInstance s of
       None \<Rightarrow>
         clog (ConsoleWarn (lit ''[MapDisplay] refreshData called, but map is not ready.'')) s
     | Some m \<Rightarrow>
         (let s1 = (clog (ConsoleLog (lit ''[MapDisplay] Refreshing map data via refreshData()...'')) s)
                     \<lparr>isLoading := True, mapError := None\<rparr>
          in (fetchReports env s1)\<lparr>isLoading := False\<rparr>))"

text \<open>The state of the component when it is created.\<close>

definition initial_map :: "bool \<Rightarrow> map_state" where
  "initial_map client =
     \<lparr>map_supabase = client, mapContainer = False, mapInstance = None, markersLayer = None,
      isLoading = True, mapError = None, L = False, reports = [], map_console = [],
      queries = []\<rparr>"

text \<open>The \<open>catch\<close> block of \<open>initializeMap\<close>.\<close>

definition init_failed :: "js_exn \<Rightarrow> map_state \<Rightarrow> map_state" where
  "init_failed err s =
     (clog (ConsoleError (lit ''[MapDisplay] Initialization failed:'')) s)
       \<lparr>mapError := Some (lit ''Map initialization failed: '' @
           (case err of Error m \<Rightarrow> m | Thrown \<Rightarrow> lit ''undefined'')),
        L := False, mapInstance := None, markersLayer := None\<rparr>"

text \<open>The \<open>try\<close> block of \<open>initializeMap\<close>, with its \<open>catch\<close>.\<close>

definition init_try :: "map_env \<Rightarrow> map_state \<Rightarrow> map_state" where
  "init_try env s =
    (case import_leaflet env of
       Inl err \<Rightarrow> init_failed err s
     | Inr loaded \<Rightarrow>
        (let s1 = s\<lparr>L := loaded\<rparr> in
         if \<not> L s1 then
           init_failed (Error (lit ''Leaflet library (L) failed to load or is null.'')) s1
         else
           (let s2 = s1\<lparr>markersLayer := Some []\<rparr> in
            case L_map env of
              Some err \<Rightarrow> init_failed err s2
            | None \<Rightarrow>
               (let m0 = \<lparr>map_center = initialCoords, map_zoom = initialZoom,
                          tile_layers = [], has_markers_layer = False\<rparr>;
                    m1 = m0\<lparr>tile_layers := tile_layers m0 @
                             [lit ''https://{s}.tile.openstreetmap.org/{z}/{x}/{y}.png'']\<rparr>;
                    m2 = m1\<lparr>has_markers_layer := True\<rparr>
                in fetchReports env (s2\<lparr>mapInstance := Some m2\<rparr>)))))"

definition initializeMap :: "map_env \<Rightarrow> map_state \<Rightarrow> map_state" where
  "initializeMap env s =
    (if \<not> in_browser env then
       (clog (ConsoleLog (lit ''[MapDisplay] Not in browser, skipping map initialization.'')) s)
         \<lparr>isLoading := False\<rparr>
     else if mapInstance s \<noteq> None then
       (clog (ConsoleLog
          (lit ''[MapDisplay] Map already initialized, skipping re-initialization.'')) s)
         \<lparr>isLoading := False\<rparr>
     else if \<not> mapContainer s then
       (clog (ConsoleError (lit ''[MapDisplay] Map container div not found on mount!'')) s)
         \<lparr>mapError := Some (lit ''Map container failed to load.''), isLoading := False\<rparr>
     else
       (init_try env s)\<lparr>isLoading := False\<rparr>)"

text \<open>The cleanup function that \<open>onMount\<close> returns.\<close>

definition cleanup :: "map_state \<Rightarrow> map_state" where
  "cleanup s =
     (let s1 = (case mapInstance s of
                  None \<Rightarrow> s
                | Some m \<Rightarrow> (clog (ConsoleLog (lit ''[MapDisplay] Removing map instance.'')) s)
                              \<lparr>mapInstance := None\<rparr>)
      in s1\<lparr>L := False, markersLayer := None, mapContainer := False, reports := []\<rparr>)"

text \<open>
  The component's references are set together and cleared together: either the map,
  the layer group and the library are all there, or none of them is.
\<close>

definition refs_consistent :: "map_state \<Rightarrow> bool" where
  "refs_consistent s \<longleftrightarrow>
     (mapInstance s = None \<and> markersLayer s = None \<and> \<not> L s) \<or>
     (mapInstance s \<noteq> None \<and> markersLayer s \<noteq> None \<and> L s)"

text \<open>The markers that the map shows: the layers of the layer group, when it is on the map.\<close>

definition rendered_markers :: "map_state \<Rightarrow> marker list" where
  "rendered_markers s =
     (case mapInstance s of
        None \<Rightarrow> []
      | Some m \<Rightarrow>
          if has_markers_layer m then (case markersLayer s of None \<Rightarrow> [] | Some ms \<Rightarrow> ms)
          else [])"

text \<open>
  The marker expected for a report: at the report's coordinates and with its popup when
  both coordinates are numbers, none when a coordinate is null or NaN.
\<close>

definition marker_of :: "map_env \<Rightarrow> PollutionReport \<Rightarrow> marker option" where
  "marker_of env report =
     (case (pr_latitude report, pr_longitude report) of
        (Some lat, Some lng) \<Rightarrow>
          if isNaN lat \<or> isNaN lng then None
          else Some \<lparr>marker_lat = lat, marker_lng = lng, marker_popup = popupContent env report\<rparr>
      | _ \<Rightarrow> None)"

definition valid_report :: "PollutionReport \<Rightarrow> bool" where
  "valid_report report \<longleftrightarrow> \<not> invalid_coordinates (pr_latitude report) (pr_longitude report)"

text \<open>The guards of \<open>updateMarkers\<close> pass: map, layer group and library are there.\<close>

definition map_ready :: "map_state \<Rightarrow> bool" where
  "map_ready s \<longleftrightarrow> mapInstance s \<noteq> None \<and> markersLayer s \<noteq> None \<and> L s"

text \<open>The report list that the backend's answer stands for: empty on an error or null data.\<close>

definition fetched :: "map_env \<Rightarrow> PollutionReport list" where
  "fetched env =
     (case res_error (select_reports env) of
        Some err \<Rightarrow> []
      | None \<Rightarrow> (case res_data (select_reports env) of None \<Rightarrow> [] | Some d \<Rightarrow> d))"

text \<open>The positions of a list of markers.\<close>

definition positions :: "marker list \<Rightarrow> (number \<times> number) list" where
  "positions ms = map (\<lambda>m. (marker_lat m, marker_lng m)) ms"

text \<open>Is the console entry an error?\<close>

fun is_console_error :: "console_entry \<Rightarrow> bool" where
  "is_console_error (ConsoleError msg) = True"
| "is_console_error _ = False"

section \<open>Specification-side predicates and concrete inputs\<close>

text \<open>
  The coordinates the specification accepts: both present, both finite numbers, the
  latitude in \<open>[-90, 90]\<close> and the longitude in \<open>[-180, 180]\<close>.
\<close>

fun spec_valid_coordinates :: "number option \<Rightarrow> number option \<Rightarrow> bool" where
  "spec_valid_coordinates (Some (Finite lat)) (Some (Finite lon)) =
     (- 90 \<le> lat \<and> lat \<le> 90 \<and> - 180 \<le> lon \<and> lon \<le> 180)"
| "spec_valid_coordinates _ _ = False"

text \<open>A callback that completes and records the data it was called with.\<close>

definition record_call :: "ReportData \<Rightarrow> ReportData list \<Rightarrow> js_exn option \<times> ReportData list" where
  "record_call reportData calls = (None, calls @ [reportData])"

text \<open>What a run added to the page's trace.\<close>

definition new_effects :: "page_state \<Rightarrow> page_state \<Rightarrow> effect list" where
  "new_effects p p' = drop (length (effects p)) (effects p')"

text \<open>A form filled in by hand, a report without image, and an image file.\<close>

definition filled_form :: form_state where
  "filled_form = initial_form\<lparr>description := lit ''smoke'', latitude := Some (Finite 27.7),
        longitude := Some (Finite 85.3)\<rparr>"

definition sample_data :: ReportData where
  "sample_data = \<lparr>rd_pollutionType = lit ''Sewage Leak'', rd_description = lit ''x'',
     rd_latitude = Some (Finite 27.7), rd_longitude = Some (Finite 85.3), rd_imageFile = None\<rparr>"

definition sample_file :: js_file where
  "sample_file = \<lparr>file_name = lit ''dump.jpg'', file_type = lit ''image/jpeg''\<rparr>"

text \<open>A backend that accepts everything.\<close>

definition backend_ok :: submit_env where
  "backend_ok = \<lparr>date_now = 1700000000000, randomSuffix = lit ''k3x9qz'',
     upload = (\<lambda>path file. None),
     getPublicUrl = (\<lambda>path. Some (Some (lit ''https://cdn.example/'' @ path))),
     insert_row = (\<lambda>row. None)\<rparr>"

text \<open>
  The page with its backend client and its map, and the page whose configuration is
  missing: \<open>onMount\<close> has left \<open>supabase\<close> null, so the map is not mounted either.
\<close>

definition page_ready :: page_state where
  "page_ready = \<lparr>submissionMessage = None, isProcessing = False, supabase = True,
     mapDisplayComponent = True, timers = [], effects = []\<rparr>"

definition page_unconfigured :: page_state where
  "page_unconfigured = \<lparr>submissionMessage = Some (lit ''Configuration error: Cannot connect to backend''),
     isProcessing = False, supabase = False,
     mapDisplayComponent = False, timers = [], effects = []\<rparr>"

text \<open>A browser without geolocation, and one whose position request times out.\<close>

definition no_geolocation :: geo_env where
  "no_geolocation = \<lparr>browser = True, geolocation = False,
     getCurrentPosition = (\<lambda>opts. PositionError 2), toFixed5 = (\<lambda>n. [])\<rparr>"

definition geolocation_timeout :: geo_env where
  "geolocation_timeout = \<lparr>browser = True, geolocation = True,
     getCurrentPosition = (\<lambda>opts. PositionError 3), toFixed5 = (\<lambda>n. [])\<rparr>"

text \<open>
  Four stored reports: two with coordinates, one with a null latitude, one with a NaN
  longitude.
\<close>

definition report_a :: PollutionReport where
  "report_a =
     \<lparr>pr_id = lit ''a1'', pr_created_at = lit ''2025-04-01T10:00:00Z'',
      pr_latitude = Some (Finite 27.7), pr_longitude = Some (Finite 85.3),
      pr_pollution_type = Some (lit ''Sewage Leak''), pr_description = lit ''x'',
      pr_image_url = None\<rparr>"

definition report_null :: PollutionReport where
  "report_null = report_a\<lparr>pr_id := lit ''n0'', pr_latitude := None\<rparr>"

definition report_nan :: PollutionReport where
  "report_nan = report_a\<lparr>pr_id := lit ''n1'', pr_longitude := Some NaN\<rparr>"

definition report_b :: PollutionReport where
  "report_b =
     \<lparr>pr_id = lit ''b2'', pr_created_at = lit ''2025-04-02T08:30:00Z'',
      pr_latitude = Some (Finite 27.71), pr_longitude = Some (Finite 85.32),
      pr_pollution_type = Some (lit ''Trash_Dump''), pr_description = [],
      pr_image_url = Some (lit ''https://cdn.example/public/1.jpg'')\<rparr>"

definition stored_reports :: "PollutionReport list" where
  "stored_reports = [report_a, report_null, report_nan, report_b]"

text \<open>A backend that returns the four reports, and one whose query fails.\<close>

definition map_env_ok :: map_env where
  "map_env_ok =
     \<lparr>in_browser = True, import_leaflet = Inr True, L_map = None,
      select_reports = \<lparr>res_data = Some stored_reports, res_error = None\<rparr>,
      toLocaleString = (\<lambda>s. s)\<rparr>"

definition map_env_failing :: map_env where
  "map_env_failing =
     \<lparr>in_browser = True, import_leaflet = Inr True, L_map = None,
      select_reports = \<lparr>res_data = None, res_error = Some \<lparr>message = lit ''Failed to fetch''\<rparr>\<rparr>,
      toLocaleString = (\<lambda>s. s)\<rparr>"

text \<open>The component after its initialization, showing the marker of one report.\<close>

definition mounted_map :: map_state where
  "mounted_map =
     \<lparr>map_supabase = True, mapContainer = True,
      mapInstance = Some \<lparr>map_center = initialCoords, map_zoom = initialZoom,
        tile_layers = [lit ''https://{s}.tile.openstreetmap.org/{z}/{x}/{y}.png''],
        has_markers_layer = True\<rparr>,
      markersLayer = Some [\<lparr>marker_lat = Finite 27.7, marker_lng = Finite 85.3,
        marker_popup = popupContent map_env_ok report_a\<rparr>],
      isLoading = False, mapError = None, L = True, reports = [report_a],
      map_console = [], queries = [500]\<rparr>"

section \<open>ReportForm: validation and submission\<close>

lemma trim_whitespace_only: "list_all isWhiteSpace s \<Longrightarrow> trim s = []"
proof -
  assume "list_all isWhiteSpace s"
  then have d: "dropWhile isWhiteSpace s = []"
    by (induction s) simp_all
  show ?thesis
    by (simp only: trim_def d rev.simps dropWhile.simps)
qed

text \<open>The test of \<open>handleSubmit\<close> rejects exactly what the specification does not accept.\<close>

lemma invalid_location_iff:
  "invalid_location la lo \<longleftrightarrow> \<not> spec_valid_coordinates la lo"
proof (cases la)
  case None
  then show ?thesis by simp
next
  case (Some a)
  show ?thesis
  proof (cases lo)
    case None
    with Some show ?thesis by (cases a) simp_all
  next
    case (Some b)
    with \<open>la = Some a\<close> show ?thesis
      by (cases a; cases b) (auto simp: num_gt_def)
  qed
qed

text \<open>
  Claim C2. When the description is empty or has only whitespace in it, \<open>handleSubmit\<close>
  rejects the submission: the form gets the error message of the required fields and
  nothing else changes. The callback is not invoked, whatever it is: the world it works
  on is returned as it was, a recording callback has recorded no call, and with the
  page's handler as the callback the page's trace has no new backend call.
\<close>

theorem handleSubmit_blank_description_rejected:
  assumes "list_all isWhiteSpace (description f)"
  shows "handleSubmit onSubmit f w =
           (f\<lparr>formError := Some (lit ''All fields marked with * are required.'')\<rparr>, w)
         \<and> snd (handleSubmit record_call f calls) = calls
         \<and> effects (snd (handleSubmit (page_onSubmit env) f p)) = effects p"
  using trim_whitespace_only [OF assms] by (simp add: handleSubmit_def)

theorem handleSubmit_blank_description_rejected_witness:
  "list_all isWhiteSpace [0x20, 0x09, 0x3000] \<and>
   handleSubmit record_call (initial_form\<lparr>description := [0x20, 0x09, 0x3000]\<rparr>) [] =
     (initial_form\<lparr>description := [0x20, 0x09, 0x3000],
        formError := Some (lit ''All fields marked with * are required.'')\<rparr>, [])"
proof -
  have h: "list_all isWhiteSpace (description (initial_form\<lparr>description := [0x20, 0x09, 0x3000]\<rparr>))"
    by (simp add: isWhiteSpace_def)
  from handleSubmit_blank_description_rejected [OF h, of record_call "[]"] h show ?thesis by simp
qed

text \<open>
  Claim C3, as amended. When a coordinate is null, NaN or out of its range,
  \<open>handleSubmit\<close> rejects the submission with an error message and does not invoke the
  callback. The message is the one of the invalid location when the category and the
  trimmed description are not empty; otherwise it is the one of the required fields,
  which are tested first.
\<close>

theorem handleSubmit_invalid_location_rejected:
  assumes "\<not> spec_valid_coordinates (latitude f) (longitude f)"
  shows "(\<exists>msg. handleSubmit onSubmit f w = (f\<lparr>formError := Some msg\<rparr>, w))
       \<and> (pollutionType f \<noteq> [] \<and> trim (description f) \<noteq> [] \<longrightarrow>
            handleSubmit onSubmit f w =
              (f\<lparr>formError := Some (lit ''Please provide a valid location.'')\<rparr>, w))
       \<and> (pollutionType f = [] \<or> trim (description f) = [] \<longrightarrow>
            handleSubmit onSubmit f w =
              (f\<lparr>formError := Some (lit ''All fields marked with * are required.'')\<rparr>, w))"
proof -
  have inv: "invalid_location (latitude f) (longitude f)"
    using assms by (simp add: invalid_location_iff)
  show ?thesis
  proof (cases "pollutionType f = [] \<or> trim (description f) = []")
    case True
    then have "handleSubmit onSubmit f w =
        (f\<lparr>formError := Some (lit ''All fields marked with * are required.'')\<rparr>, w)"
      by (auto simp: handleSubmit_def Let_def)
    with True show ?thesis by auto
  next
    case False
    with inv have "handleSubmit onSubmit f w =
        (f\<lparr>formError := Some (lit ''Please provide a valid location.'')\<rparr>, w)"
      by (auto simp: handleSubmit_def Let_def)
    with False show ?thesis by auto
  qed
qed

theorem handleSubmit_invalid_location_rejected_witness:
  "\<not> spec_valid_coordinates (Some (Finite 100)) (Some (Finite 85.3)) \<and>
   handleSubmit record_call
     (initial_form\<lparr>description := lit ''smoke'', latitude := Some (Finite 100),
        longitude := Some (Finite 85.3)\<rparr>) [] =
     (initial_form\<lparr>description := lit ''smoke'', latitude := Some (Finite 100),
        longitude := Some (Finite 85.3),
        formError := Some (lit ''Please provide a valid location.'')\<rparr>, []) \<and>
   handleSubmit record_call
     (initial_form\<lparr>description := [0x20], latitude := Some (Finite 100),
        longitude := Some (Finite 85.3)\<rparr>) [] =
     (initial_form\<lparr>description := [0x20], latitude := Some (Finite 100),
        longitude := Some (Finite 85.3),
        formError := Some (lit ''All fields marked with * are required.'')\<rparr>, [])"
proof -
  let ?f = "initial_form\<lparr>description := lit ''smoke'', latitude := Some (Finite 100),
        longitude := Some (Finite 85.3)\<rparr>"
  let ?g = "initial_form\<lparr>description := [0x20], latitude := Some (Finite 100),
        longitude := Some (Finite 85.3)\<rparr>"
  have h: "\<not> spec_valid_coordinates (latitude ?f) (longitude ?f)"
    by simp
  have ne: "pollutionType ?f \<noteq> [] \<and> trim (description ?f) \<noteq> []"
    by (simp add: initial_form_def lit_def trim_def isWhiteSpace_def)
  have h': "\<not> spec_valid_coordinates (latitude ?g) (longitude ?g)"
    by simp
  have blank: "trim (description ?g) = []"
    by (simp add: trim_def isWhiteSpace_def)
  from handleSubmit_invalid_location_rejected [OF h, of record_call "[]"] ne
  have 1: "handleSubmit record_call ?f [] =
      (?f\<lparr>formError := Some (lit ''Please provide a valid location.'')\<rparr>, [])"
    by blast
  from handleSubmit_invalid_location_rejected [OF h', of record_call "[]"] blank
  have 2: "handleSubmit record_call ?g [] =
      (?g\<lparr>formError := Some (lit ''All fields marked with * are required.'')\<rparr>, [])"
    by blast
  from 1 2 show ?thesis by simp
qed

text \<open>
  Claim C3 as stated fails: with a latitude of 100 and a description of one space the
  error is the one of the required fields, not the one of the invalid location.
\<close>

theorem handleSubmit_invalid_location_counterexample:
  "\<not> spec_valid_coordinates (Some (Finite 100)) (Some (Finite 85.3)) \<and>
   formError (fst (handleSubmit record_call
     (initial_form\<lparr>description := [0x20], latitude := Some (Finite 100),
        longitude := Some (Finite 85.3)\<rparr>) []))
   \<noteq> Some (lit ''Please provide a valid location.'')"
  by (simp add: handleSubmit_def initial_form_def trim_def isWhiteSpace_def lit_def)

text \<open>
  Claim C6, as amended. On a successful submit \<open>handleSubmit\<close> keeps the pending report:
  category, description, coordinates and image file are as the user entered them. It
  clears \<open>formError\<close> and \<open>locationStatus\<close>, logs the success and sets \<open>isSubmitting\<close> back
  to false.
\<close>

theorem handleSubmit_success_keeps_fields:
  assumes "pollutionType f \<noteq> []" and "trim (description f) \<noteq> []"
    and "spec_valid_coordinates (latitude f) (longitude f)"
    and "onSubmit \<lparr>rd_pollutionType = pollutionType f, rd_description = trim (description f),
            rd_latitude = latitude f, rd_longitude = longitude f, rd_imageFile = imageFile f\<rparr> w
         = (None, w')"
  shows "handleSubmit onSubmit f w =
           (f\<lparr>formError := None, locationStatus := [],
              console := console f @ [ConsoleLog (lit ''Report submitted successfully.'')],
              isSubmitting := False\<rparr>, w')"
  using assms by (simp add: handleSubmit_def invalid_location_iff)

theorem handleSubmit_success_keeps_fields_witness:
  "handleSubmit record_call filled_form [] =
     (filled_form\<lparr>console := [ConsoleLog (lit ''Report submitted successfully.'')]\<rparr>,
      [\<lparr>rd_pollutionType = lit ''Trash Dump'', rd_description = lit ''smoke'',
        rd_latitude = Some (Finite 27.7), rd_longitude = Some (Finite 85.3), rd_imageFile = None\<rparr>])"
proof -
  have t: "trim (lit ''smoke'') = lit ''smoke''"
    by (simp add: trim_def lit_def isWhiteSpace_def)
  have 1: "pollutionType filled_form \<noteq> []"
    by (simp add: filled_form_def initial_form_def lit_def)
  have 2: "trim (description filled_form) \<noteq> []"
    by (simp add: filled_form_def t) (simp add: lit_def)
  have 3: "spec_valid_coordinates (latitude filled_form) (longitude filled_form)"
    by (simp add: filled_form_def)
  have 4: "record_call \<lparr>rd_pollutionType = pollutionType filled_form,
            rd_description = trim (description filled_form),
            rd_latitude = latitude filled_form, rd_longitude = longitude filled_form,
            rd_imageFile = imageFile filled_form\<rparr> [] = (None, [\<lparr>rd_pollutionType = lit ''Trash Dump'', rd_description = lit ''smoke'',
        rd_latitude = Some (Finite 27.7), rd_longitude = Some (Finite 85.3), rd_imageFile = None\<rparr>])"
    by (simp add: record_call_def filled_form_def initial_form_def t)
  from handleSubmit_success_keeps_fields [where f = filled_form and onSubmit = record_call and w = "[]", OF 1 2 3 4] show ?thesis
    by (simp add: filled_form_def initial_form_def)
qed

text \<open>
  Claim C6 as stated fails: after a successful submit of the filled form the
  description and the coordinates are still there.
\<close>

theorem handleSubmit_success_no_reset_counterexample:
  "snd (handleSubmit record_call filled_form []) \<noteq> [] \<and>
   formError (fst (handleSubmit record_call filled_form [])) = None \<and>
   description (fst (handleSubmit record_call filled_form [])) \<noteq> description initial_form \<and>
   latitude (fst (handleSubmit record_call filled_form [])) \<noteq> latitude initial_form \<and>
   longitude (fst (handleSubmit record_call filled_form [])) \<noteq> longitude initial_form"
  by (simp add: handleSubmit_def filled_form_def initial_form_def record_call_def trim_def
      isWhiteSpace_def lit_def num_gt_def)

text \<open>
  Claim C9, as amended. With geolocation available, \<open>getCurrentLocation\<close> makes one
  \<open>getCurrentPosition\<close> request, with high accuracy, a timeout of 10000 milliseconds and
  a maximum age of 0. When the request fails, the status is the message of the error's
  class (permission denied, position unavailable, timeout, anything else) and latitude
  and longitude are both null. Without geolocation no request is made: the status is
  the message of the unsupported browser and the coordinates are left as they were.
\<close>

theorem getCurrentLocation_failure:
  "(browser env \<and> geolocation env \<longrightarrow>
      geo_requests (getCurrentLocation env f) =
        geo_requests f @ [\<lparr>enableHighAccuracy = True, timeout = 10000, maximumAge = 0\<rparr>])
   \<and> (browser env \<and> geolocation env \<and>
       getCurrentPosition env \<lparr>enableHighAccuracy = True, timeout = 10000, maximumAge = 0\<rparr>
         = PositionError code \<longrightarrow>
         latitude (getCurrentLocation env f) = None \<and>
         longitude (getCurrentLocation env f) = None \<and>
         locationStatus (getCurrentLocation env f) =
           (if code = 1 then lit ''Permission denied. Please enable location access.''
            else if code = 2 then lit ''Location unavailable.''
            else if code = 3 then lit ''Location request timed out.''
            else lit ''Failed to get location.''))
   \<and> (\<not> (browser env \<and> geolocation env) \<longrightarrow>
         getCurrentLocation env f =
           f\<lparr>locationStatus := lit ''Geolocation is not supported by your browser.'',
             formError := None\<rparr>)"
  by (auto simp: getCurrentLocation_def location_options_def Let_def PERMISSION_DENIED_def
      POSITION_UNAVAILABLE_def TIMEOUT_def split: geo_result.splits)

theorem getCurrentLocation_failure_witness:
  "geo_requests (getCurrentLocation geolocation_timeout filled_form) =
     [\<lparr>enableHighAccuracy = True, timeout = 10000, maximumAge = 0\<rparr>] \<and>
   latitude (getCurrentLocation geolocation_timeout filled_form) = None \<and>
   longitude (getCurrentLocation geolocation_timeout filled_form) = None \<and>
   locationStatus (getCurrentLocation geolocation_timeout filled_form) =
     lit ''Location request timed out.''"
  using getCurrentLocation_failure [of geolocation_timeout filled_form 3]
  by (simp add: geolocation_timeout_def filled_form_def initial_form_def)

text \<open>
  Claim C9 as stated fails where geolocation is unsupported: the coordinates typed into
  the form are still there after the failure.
\<close>

theorem getCurrentLocation_unsupported_counterexample:
  "\<not> (browser no_geolocation \<and> geolocation no_geolocation) \<and>
   locationStatus (getCurrentLocation no_geolocation filled_form) =
     lit ''Geolocation is not supported by your browser.'' \<and>
   latitude (getCurrentLocation no_geolocation filled_form) = Some (Finite 27.7) \<and>
   longitude (getCurrentLocation no_geolocation filled_form) = Some (Finite 85.3)"
  by (simp add: getCurrentLocation_def no_geolocation_def filled_form_def initial_form_def)

section \<open>Page: the submission pipeline\<close>

lemma effects_emit [simp]: "effects (emit e p) = effects p @ [e]"
  by (simp add: emit_def)

lemma timers_emit [simp]: "timers (emit e p) = timers p"
  by (simp add: emit_def)

lemma message_emit [simp]: "submissionMessage (emit e p) = submissionMessage p"
  by (simp add: emit_def)

lemma supabase_emit [simp]: "supabase (emit e p) = supabase p"
  by (simp add: emit_def)

lemma mapDisplayComponent_emit [simp]: "mapDisplayComponent (emit e p) = mapDisplayComponent p"
  by (simp add: emit_def)

lemma timers_refresh_map [simp]: "timers (refresh_map p) = timers p"
  by (simp add: refresh_map_def)

lemma message_refresh_map [simp]: "submissionMessage (refresh_map p) = submissionMessage p"
  by (simp add: refresh_map_def)

lemma timers_save_report: "timers (fst (save_report env rd url p)) = timers p"
  by (simp add: save_report_def Let_def split: option.splits)

lemma timers_after_upload: "timers (fst (after_upload env rd path p)) = timers p"
  by (simp add: after_upload_def Let_def timers_save_report split: option.splits)

lemma timers_try_block: "timers (fst (try_block env rd p)) = timers p"
  by (simp add: try_block_def Let_def timers_after_upload split: option.splits)

lemma timers_catch_block [simp]: "timers (catch_block e p) = timers p"
  by (simp add: catch_block_def)

lemma timers_handleReportSubmit:
  "supabase p \<Longrightarrow>
   timers (handleReportSubmit env rd p) = timers p @ [(7000, ClearSubmissionMessage)]"
proof -
  assume s: "supabase p"
  let ?p1 = "emit (Console (ConsoleLog (lit ''Received report data in parent:'')))
                (p\<lparr>isProcessing := True, submissionMessage := Some (lit ''Processing report...'')\<rparr>)"
  obtain p2 r where t: "try_block env rd ?p1 = (p2, r)"
    by (cases "try_block env rd ?p1")
  have "timers p2 = timers ?p1"
    using timers_try_block [of env rd ?p1] t by simp
  then have p2: "timers p2 = timers p" by simp
  show ?thesis
    using s t p2 by (cases r) (simp_all add: handleReportSubmit_def finally_block_def Let_def)
qed

lemma message_save_report:
  "submissionMessage p \<noteq> None \<Longrightarrow> submissionMessage (fst (save_report env rd url p)) \<noteq> None"
  by (simp add: save_report_def Let_def split: option.splits)

lemma message_after_upload:
  "submissionMessage (fst (after_upload env rd path p)) \<noteq> None"
  by (simp add: after_upload_def Let_def message_save_report)

lemma message_set_after_try:
  "submissionMessage p \<noteq> None \<Longrightarrow> submissionMessage (fst (try_block env rd p)) \<noteq> None"
  using message_after_upload
  by (auto simp: try_block_def Let_def split: option.splits)

lemma message_handleReportSubmit:
  "submissionMessage (handleReportSubmit env rd p) \<noteq> None"
proof -
  let ?p1 = "emit (Console (ConsoleLog (lit ''Received report data in parent:'')))
                (p\<lparr>isProcessing := True, submissionMessage := Some (lit ''Processing report...'')\<rparr>)"
  obtain p2 r where t: "try_block env rd ?p1 = (p2, r)"
    by (cases "try_block env rd ?p1")
  have "submissionMessage p2 \<noteq> None"
    using message_set_after_try [of ?p1 env rd] t by simp
  then show ?thesis
    using t by (cases r) (simp_all add: handleReportSubmit_def finally_block_def catch_block_def Let_def)
qed

lemma message_run_callbacks:
  "cbs \<noteq> [] \<Longrightarrow> submissionMessage (foldl (\<lambda>q cb. run_callback cb q) q cbs) = None"
proof (induction cbs rule: rev_induct)
  case Nil
  then show ?case by simp
next
  case (snoc cb cbs)
  show ?case by (cases cb) simp
qed

lemma elapse_clears:
  assumes "(r, cb) \<in> set (timers p)" and "r \<le> d"
  shows "submissionMessage (elapse d p) = None"
proof -
  have "(r, cb) \<in> set (filter (\<lambda>(r, cb). r \<le> d) (timers p))"
    using assms by simp
  then have "filter (\<lambda>(r, cb). r \<le> d) (timers p) \<noteq> []"
    by (metis empty_iff list.set(1))
  then have "map snd (filter (\<lambda>(r, cb). r \<le> d) (timers p)) \<noteq> []"
    by simp
  then show ?thesis
    unfolding elapse_def by (rule message_run_callbacks)
qed

lemma elapse_early:
  assumes "\<forall>(r, cb) \<in> set (timers p). d < r"
  shows "submissionMessage (elapse d p) = submissionMessage p"
proof -
  have "filter (\<lambda>(r, cb). r \<le> d) (timers p) = []"
    using assms by (auto simp: filter_empty_conv)
  then show ?thesis by (simp add: elapse_def)
qed

text \<open>
  Claim C1. When the report has no image file, the run of \<open>handleReportSubmit\<close> adds to
  the page's trace neither an upload nor an insert: nothing is written to the backend.
\<close>

theorem handleReportSubmit_no_image_no_write:
  assumes "rd_imageFile reportDetails = None"
  shows "take (length (effects p)) (effects (handleReportSubmit env reportDetails p)) = effects p
       \<and> list_all (\<lambda>e. \<not> is_upload e \<and> \<not> is_insert e)
           (new_effects p (handleReportSubmit env reportDetails p))"
  using assms
  by (simp add: handleReportSubmit_def try_block_def refresh_map_def finally_block_def
      new_effects_def Let_def)

theorem handleReportSubmit_no_image_no_write_witness:
  "rd_imageFile sample_data = None \<and>
   new_effects page_ready (handleReportSubmit backend_ok sample_data page_ready) =
     [Console (ConsoleLog (lit ''Received report data in parent:'')), RefreshData]"
proof -
  have h: "rd_imageFile sample_data = None" by (simp add: sample_data_def)
  from handleReportSubmit_no_image_no_write [OF h, of page_ready backend_ok] h show ?thesis
    by (simp add: handleReportSubmit_def try_block_def refresh_map_def finally_block_def
      new_effects_def Let_def page_ready_def)
qed

text \<open>With an image file and a backend client, the upload is attempted.\<close>

lemma effects_refresh_map: "\<exists>rest. effects (refresh_map p) = effects p @ rest"
  by (simp add: refresh_map_def)

lemma effects_save_report:
  "\<exists>rest. effects (fst (save_report env rd url p)) = effects p @ rest"
  by (simp add: save_report_def Let_def refresh_map_def split: option.splits)

lemma effects_after_upload:
  "\<exists>rest. effects (fst (after_upload env rd path p)) = effects p @ rest"
proof -
  let ?url = "public_url (getPublicUrl env path)"
  let ?p3 = "emit (GetPublicUrl path) p"
  let ?p4 = "case ?url of
                 None \<Rightarrow> emit (Console (ConsoleWarn (lit
                   ''Could not get public URL for uploaded image, but upload succeeded''))) ?p3
               | Some url \<Rightarrow> emit (Console (ConsoleLog (lit ''Image uploaded:''))) ?p3"
  let ?p5 = "?p4\<lparr>submissionMessage := Some (lit ''Saving report details...'')\<rparr>"
  obtain rest where r: "effects (fst (save_report env rd ?url ?p5)) = effects ?p5 @ rest"
    using effects_save_report by blast
  have "\<exists>e. effects ?p5 = effects p @ [GetPublicUrl path, e]"
    by (cases ?url) simp_all
  then obtain e where "effects ?p5 = effects p @ [GetPublicUrl path, e]" ..
  with r show ?thesis by (simp add: after_upload_def Let_def)
qed

lemma upload_attempted:
  assumes "rd_imageFile reportDetails = Some file" and "supabase p"
  shows "list_ex is_upload (new_effects p (handleReportSubmit env reportDetails p))"
proof -
  let ?p1 = "emit (Console (ConsoleLog (lit ''Received report data in parent:'')))
                (p\<lparr>isProcessing := True, submissionMessage := Some (lit ''Processing report...'')\<rparr>)"
  let ?path = "lit ''public/'' @ decimal (date_now env) @ lit ''_'' @ randomSuffix env
                        @ lit ''.'' @ fileExt_of (file_name file)"
  let ?p2 = "emit (StorageUpload ?path file) (?p1\<lparr>submissionMessage := Some (lit ''Uploading image'')\<rparr>)"
  obtain q r where t: "try_block env reportDetails ?p1 = (q, r)"
    by (cases "try_block env reportDetails ?p1")
  have "\<exists>rest. effects q = effects ?p2 @ rest"
  proof (cases "upload env ?path file")
    case None
    then have "q = fst (after_upload env reportDetails ?path ?p2)"
      using t assms(1) by (simp add: try_block_def Let_def)
    then show ?thesis by (simp only: effects_after_upload)
  next
    case (Some err)
    then show ?thesis
      using t assms(1) by (auto simp: try_block_def Let_def)
  qed
  then obtain rest where q: "effects q = effects ?p2 @ rest" ..
  have "\<exists>rest'. effects (handleReportSubmit env reportDetails p) = effects q @ rest'"
    using t assms(2)
    by (cases r) (simp_all add: handleReportSubmit_def Let_def finally_block_def catch_block_def)
  then obtain rest' where "effects (handleReportSubmit env reportDetails p) = effects q @ rest'" ..
  with q show ?thesis by (simp add: new_effects_def)
qed

text \<open>
  Claim C5, as amended. After every run of \<open>handleReportSubmit\<close> with a backend client
  (success, upload failure, insert failure), a status message is shown and one timeout
  of 7000 milliseconds is pending that clears it: once 7000 milliseconds or more have
  passed the message is null, and when no earlier timeout was pending it is still
  there before.
\<close>

theorem handleReportSubmit_message_cleared:
  assumes "supabase p"
  shows "timers (handleReportSubmit env reportDetails p) = timers p @ [(7000, ClearSubmissionMessage)]
       \<and> submissionMessage (handleReportSubmit env reportDetails p) \<noteq> None
       \<and> (\<forall>d \<ge> 7000. submissionMessage (elapse d (handleReportSubmit env reportDetails p)) = None)
       \<and> (timers p = [] \<longrightarrow> (\<forall>d < 7000.
            submissionMessage (elapse d (handleReportSubmit env reportDetails p)) =
            submissionMessage (handleReportSubmit env reportDetails p)))"
proof -
  let ?p' = "handleReportSubmit env reportDetails p"
  have t: "timers ?p' = timers p @ [(7000, ClearSubmissionMessage)]"
    using assms by (rule timers_handleReportSubmit)
  have late: "submissionMessage (elapse d ?p') = None" if "7000 \<le> d" for d
  proof (rule elapse_clears)
    show "(7000, ClearSubmissionMessage) \<in> set (timers ?p')" by (simp add: t)
    show "7000 \<le> d" by (rule that)
  qed
  have early: "submissionMessage (elapse d ?p') = submissionMessage ?p'"
    if "timers p = []" and "d < 7000" for d
    by (rule elapse_early) (simp add: t that)
  from t message_handleReportSubmit late early show ?thesis by blast
qed

theorem handleReportSubmit_message_cleared_witness:
  "supabase page_ready \<and>
   timers (handleReportSubmit backend_ok sample_data page_ready) = [(7000, ClearSubmissionMessage)] \<and>
   submissionMessage (elapse 7000 (handleReportSubmit backend_ok sample_data page_ready)) = None \<and>
   submissionMessage (elapse 6999 (handleReportSubmit backend_ok sample_data page_ready)) =
     submissionMessage (handleReportSubmit backend_ok sample_data page_ready)"
proof -
  have s: "supabase page_ready" by (simp add: page_ready_def)
  have t: "timers page_ready = []" by (simp add: page_ready_def)
  from handleReportSubmit_message_cleared [OF s, of backend_ok sample_data] s t show ?thesis by simp
qed

text \<open>
  Claim C5 as stated fails for the missing backend connection: the run returns before
  the \<open>try\<close> block, no timeout is set and the message is still shown after 7 seconds.
\<close>

theorem handleReportSubmit_no_backend_counterexample:
  "timers (handleReportSubmit backend_ok sample_data page_unconfigured) = [] \<and>
   submissionMessage (elapse 7000 (handleReportSubmit backend_ok sample_data page_unconfigured)) =
     Some (lit ''Error: Backend connection not ready. Please refresh'')"
  by (simp add: handleReportSubmit_def page_unconfigured_def elapse_def emit_def)

section \<open>MapDisplay: markers and refresh\<close>

lemma marker_of_None_iff: "marker_of env r = None \<longleftrightarrow> \<not> valid_report r"
  by (cases "pr_latitude r"; cases "pr_longitude r") (simp_all add: marker_of_def valid_report_def)

lemma render_report_ready:
  assumes "L s" and "markersLayer s = Some ms"
  shows "render_report env s r =
           (case marker_of env r of
              None \<Rightarrow> clog (skip_warning r) s
            | Some mk \<Rightarrow> s\<lparr>markersLayer := Some (ms @ [mk])\<rparr>)"
  using assms
  by (cases "pr_latitude r"; cases "pr_longitude r")
     (simp_all add: render_report_def marker_of_def L_marker_def)

lemma render_reports_ready:
  "L s \<Longrightarrow> markersLayer s = Some ms \<Longrightarrow>
   render_reports env rs s =
     s\<lparr>markersLayer := Some (ms @ List.map_filter (marker_of env) rs),
       map_console := map_console s @ map skip_warning (filter (\<lambda>r. \<not> valid_report r) rs)\<rparr>"
proof (induction rs arbitrary: s ms)
  case Nil
  then show ?case by (simp add: render_reports_def)
next
  case (Cons r rs)
  have step: "render_reports env (r # rs) s = render_reports env rs (render_report env s r)"
    by (simp add: render_reports_def)
  show ?case
  proof (cases "marker_of env r")
    case None
    then have nv: "\<not> valid_report r" by (simp add: marker_of_None_iff)
    have r: "render_report env s r = clog (skip_warning r) s"
      using render_report_ready [OF Cons.prems] None by simp
    have "render_reports env rs (clog (skip_warning r) s) =
          (clog (skip_warning r) s)\<lparr>markersLayer := Some (ms @ List.map_filter (marker_of env) rs),
             map_console := map_console (clog (skip_warning r) s) @
               map skip_warning (filter (\<lambda>r. \<not> valid_report r) rs)\<rparr>"
      by (rule Cons.IH) (simp_all add: clog_def Cons.prems)
    then show ?thesis
      using None nv by (simp add: step r clog_def)
  next
    case (Some mk)
    then have v: "valid_report r" using marker_of_None_iff [of env r] by simp
    have r: "render_report env s r = s\<lparr>markersLayer := Some (ms @ [mk])\<rparr>"
      using render_report_ready [OF Cons.prems] Some by simp
    have "render_reports env rs (s\<lparr>markersLayer := Some (ms @ [mk])\<rparr>) =
          (s\<lparr>markersLayer := Some (ms @ [mk])\<rparr>)\<lparr>markersLayer :=
              Some ((ms @ [mk]) @ List.map_filter (marker_of env) rs),
             map_console := map_console (s\<lparr>markersLayer := Some (ms @ [mk])\<rparr>) @
               map skip_warning (filter (\<lambda>r. \<not> valid_report r) rs)\<rparr>"
      by (rule Cons.IH) (simp_all add: Cons.prems)
    then show ?thesis
      using Some v by (simp add: step r)
  qed
qed


lemma updateMarkers_ready:
  assumes "mapInstance s = Some m" and "markersLayer s = Some old" and "L s"
  shows "updateMarkers env s =
     s\<lparr>markersLayer := Some (List.map_filter (marker_of env) (reports s)),
       mapInstance := Some (m\<lparr>has_markers_layer := True\<rparr>),
       map_console := map_console s
         @ [ConsoleLog (lit ''[MapDisplay] Updating markers...'')]
         @ map skip_warning (filter (\<lambda>r. \<not> valid_report r) (reports s))
         @ (if has_markers_layer m then []
            else [ConsoleWarn (lit
                   ''[MapDisplay] markersLayer was not found on map, adding it again.'')])
         @ [ConsoleLog (lit ''[MapDisplay] Finished updating markers. ''
              @ decimal (length (reports s)) @ lit '' reports processed.'')]\<rparr>"
proof -
  let ?s2 = "(clog (ConsoleLog (lit ''[MapDisplay] Updating markers...'')) s)\<lparr>markersLayer := Some []\<rparr>"
  have l: "L ?s2" using assms(3) by (simp add: clog_def)
  have ml: "markersLayer ?s2 = Some []" by simp
  have rs: "reports ?s2 = reports s" by (simp add: clog_def)
  note loop = render_reports_ready [OF l ml, of env "reports s"]
  show ?thesis
  proof (cases "has_markers_layer m")
    case True
    then have "m\<lparr>has_markers_layer := True\<rparr> = m" by simp
    with True assms loop show ?thesis
      by (simp add: updateMarkers_def Let_def rs clog_def)
  next
    case False
    with assms loop show ?thesis
      by (simp add: updateMarkers_def Let_def rs clog_def)
  qed
qed

lemma updateMarkers_not_ready:
  assumes "\<not> map_ready s"
  shows "\<exists>e. updateMarkers env s = clog e s"
proof (cases "mapInstance s")
  case None
  then show ?thesis by (auto simp: updateMarkers_def)
next
  case (Some m)
  show ?thesis
  proof (cases "markersLayer s")
    case None
    with Some show ?thesis by (auto simp: updateMarkers_def)
  next
    case (Some old)
    with \<open>mapInstance s = Some m\<close> assms have "\<not> L s" by (simp add: map_ready_def)
    with Some \<open>mapInstance s = Some m\<close> show ?thesis by (auto simp: updateMarkers_def)
  qed
qed

lemma markersLayer_updateMarkers:
  "markersLayer (updateMarkers env s) =
     (if map_ready s then Some (List.map_filter (marker_of env) (reports s)) else markersLayer s)"
proof (cases "map_ready s")
  case True
  then obtain m old where "mapInstance s = Some m" "markersLayer s = Some old" "L s"
    by (auto simp: map_ready_def)
  from updateMarkers_ready [OF this] True show ?thesis by simp
next
  case False
  from updateMarkers_not_ready [OF this] obtain e where "updateMarkers env s = clog e s" ..
  with False show ?thesis by (simp add: clog_def)
qed

lemma mapInstance_updateMarkers:
  "mapInstance (updateMarkers env s) =
     (if map_ready s then map_option (\<lambda>m. m\<lparr>has_markers_layer := True\<rparr>) (mapInstance s)
      else mapInstance s)"
proof (cases "map_ready s")
  case True
  then obtain m old where "mapInstance s = Some m" "markersLayer s = Some old" "L s"
    by (auto simp: map_ready_def)
  from updateMarkers_ready [OF this] True \<open>mapInstance s = Some m\<close> show ?thesis by simp
next
  case False
  from updateMarkers_not_ready [OF this] obtain e where "updateMarkers env s = clog e s" ..
  with False show ?thesis by (simp add: clog_def)
qed

lemma frame_updateMarkers:
  "L (updateMarkers env s) = L s"
  "map_supabase (updateMarkers env s) = map_supabase s"
  "reports (updateMarkers env s) = reports s"
  "mapError (updateMarkers env s) = mapError s"
  "queries (updateMarkers env s) = queries s"
proof -
  have "L (updateMarkers env s) = L s \<and> map_supabase (updateMarkers env s) = map_supabase s \<and>
        reports (updateMarkers env s) = reports s \<and> mapError (updateMarkers env s) = mapError s \<and>
        queries (updateMarkers env s) = queries s"
  proof (cases "map_ready s")
    case True
    then obtain m old where "mapInstance s = Some m" "markersLayer s = Some old" "L s"
      by (auto simp: map_ready_def)
    from updateMarkers_ready [OF this] show ?thesis by simp
  next
    case False
    from updateMarkers_not_ready [OF this] obtain e where "updateMarkers env s = clog e s" ..
    then show ?thesis by (simp add: clog_def)
  qed
  then show "L (updateMarkers env s) = L s"
    "map_supabase (updateMarkers env s) = map_supabase s"
    "reports (updateMarkers env s) = reports s"
    "mapError (updateMarkers env s) = mapError s"
    "queries (updateMarkers env s) = queries s"
    by simp_all
qed

lemma map_ready_updateMarkers: "map_ready (updateMarkers env s) = map_ready s"
  by (cases "mapInstance s")
     (simp_all add: map_ready_def markersLayer_updateMarkers mapInstance_updateMarkers
        frame_updateMarkers)

lemma fetchReports_no_client:
  "\<not> map_supabase s \<Longrightarrow>
   fetchReports env s =
     s\<lparr>mapError := Some (lit ''Backend connection error.''), isLoading := False,
       map_console := map_console s @
         [ConsoleLog (lit ''[MapDisplay] Fetching pollution reports...''),
          ConsoleError (lit ''[MapDisplay] Supabase client not available for fetching reports.'')]\<rparr>"
  by (simp add: fetchReports_def Let_def clog_def)

lemma fetchReports_client:
  assumes "map_supabase s"
  shows "\<exists>s'. fetchReports env s = updateMarkers env s' \<and>
           reports s' = fetched env \<and> queries s' = queries s @ [500] \<and>
           mapError s' = map_option (\<lambda>e. lit ''Failed to load reports: '' @ message e)
                           (res_error (select_reports env)) \<and>
           mapInstance s' = mapInstance s \<and> markersLayer s' = markersLayer s \<and>
           L s' = L s \<and> map_supabase s' = map_supabase s"
proof (cases "res_error (select_reports env)")
  case None
  let ?s3 = "s\<lparr>mapError := None, queries := queries s @ [500],
        reports := fetched env\<rparr>"
  let ?s' = "clog (ConsoleLog (lit ''[MapDisplay] Fetched '' @ decimal (length (reports ?s3))
              @ lit '' reports.''))
              (clog (ConsoleLog (lit ''[MapDisplay] Fetching pollution reports...'')) ?s3)"
  have "fetchReports env s = updateMarkers env ?s'"
    using assms None by (simp add: fetchReports_def Let_def clog_def fetched_def)
  moreover have "reports ?s' = fetched env" "queries ?s' = queries s @ [500]"
    "mapError ?s' = None" "mapInstance ?s' = mapInstance s" "markersLayer ?s' = markersLayer s"
    "L ?s' = L s" "map_supabase ?s' = map_supabase s"
    by (simp_all add: clog_def)
  ultimately show ?thesis using None by auto
next
  case (Some e)
  let ?s' = "(clog (ConsoleError (lit ''[MapDisplay] Error fetching reports:''))
               (clog (ConsoleLog (lit ''[MapDisplay] Fetching pollution reports...''))
                  (s\<lparr>mapError := None, queries := queries s @ [500]\<rparr>)))
              \<lparr>mapError := Some (lit ''Failed to load reports: '' @ message e), reports := []\<rparr>"
  have "fetchReports env s = updateMarkers env ?s'"
    using assms Some by (simp add: fetchReports_def Let_def clog_def)
  moreover have "reports ?s' = fetched env" "queries ?s' = queries s @ [500]"
    "mapError ?s' = Some (lit ''Failed to load reports: '' @ message e)"
    "mapInstance ?s' = mapInstance s" "markersLayer ?s' = markersLayer s"
    "L ?s' = L s" "map_supabase ?s' = map_supabase s"
    using Some by (simp_all add: clog_def fetched_def)
  ultimately show ?thesis using Some by auto
qed

lemma markersLayer_fetchReports:
  "markersLayer (fetchReports env s) =
     (if map_supabase s \<and> map_ready s
      then Some (List.map_filter (marker_of env) (fetched env)) else markersLayer s)"
proof (cases "map_supabase s")
  case True
  from fetchReports_client [OF this, of env] obtain s' where
    "fetchReports env s = updateMarkers env s'" "reports s' = fetched env"
    "mapInstance s' = mapInstance s" "markersLayer s' = markersLayer s" "L s' = L s"
    by blast
  with True show ?thesis by (simp add: markersLayer_updateMarkers map_ready_def)
next
  case False
  then show ?thesis by (simp add: fetchReports_no_client)
qed

lemma mapInstance_fetchReports:
  "mapInstance (fetchReports env s) =
     (if map_supabase s \<and> map_ready s
      then map_option (\<lambda>m. m\<lparr>has_markers_layer := True\<rparr>) (mapInstance s)
      else mapInstance s)"
proof (cases "map_supabase s")
  case True
  from fetchReports_client [OF this, of env] obtain s' where
    "fetchReports env s = updateMarkers env s'"
    "mapInstance s' = mapInstance s" "markersLayer s' = markersLayer s" "L s' = L s"
    by blast
  with True show ?thesis by (simp add: mapInstance_updateMarkers map_ready_def)
next
  case False
  then show ?thesis by (simp add: fetchReports_no_client)
qed

lemma frame_fetchReports:
  "L (fetchReports env s) = L s"
  "map_supabase (fetchReports env s) = map_supabase s"
proof -
  have "L (fetchReports env s) = L s \<and> map_supabase (fetchReports env s) = map_supabase s"
  proof (cases "map_supabase s")
    case True
    from fetchReports_client [OF this, of env] obtain s' where
      "fetchReports env s = updateMarkers env s'" "L s' = L s" "map_supabase s' = map_supabase s"
      by blast
    then show ?thesis by (simp add: frame_updateMarkers)
  next
    case False
    then show ?thesis by (simp add: fetchReports_no_client)
  qed
  then show "L (fetchReports env s) = L s"
    "map_supabase (fetchReports env s) = map_supabase s" by simp_all
qed

lemma map_ready_fetchReports: "map_ready (fetchReports env s) = map_ready s"
  by (cases "mapInstance s")
     (simp_all add: map_ready_def markersLayer_fetchReports mapInstance_fetchReports
        frame_fetchReports)

lemma refreshData_no_map:
  "mapInstance s = None \<Longrightarrow>
   refreshData env s =
     s\<lparr>map_console := map_console s @
        [ConsoleWarn (lit ''[MapDisplay] refreshData called, but map is not ready.'')]\<rparr>"
  by (simp add: refreshData_def clog_def)

lemma refreshData_map:
  "mapInstance s \<noteq> None \<Longrightarrow>
   refreshData env s =
     (fetchReports env
        (s\<lparr>map_console := map_console s @
             [ConsoleLog (lit ''[MapDisplay] Refreshing map data via refreshData()...'')],
           isLoading := True, mapError := None\<rparr>))
       \<lparr>isLoading := False\<rparr>"
  by (auto simp: refreshData_def clog_def Let_def)

lemma markersLayer_refreshData:
  "markersLayer (refreshData env s) =
     (if map_supabase s \<and> map_ready s
      then Some (List.map_filter (marker_of env) (fetched env)) else markersLayer s)"
proof (cases "mapInstance s")
  case None
  then show ?thesis by (simp add: refreshData_no_map map_ready_def)
next
  case (Some m)
  then show ?thesis
    by (simp add: refreshData_map markersLayer_fetchReports map_ready_def)
qed

lemma mapInstance_refreshData:
  "mapInstance (refreshData env s) =
     (if map_supabase s \<and> map_ready s
      then map_option (\<lambda>m. m\<lparr>has_markers_layer := True\<rparr>) (mapInstance s)
      else mapInstance s)"
proof (cases "mapInstance s")
  case None
  then show ?thesis by (simp add: refreshData_no_map map_ready_def)
next
  case (Some m)
  then show ?thesis
    by (auto simp: refreshData_map mapInstance_fetchReports map_ready_def)
qed

lemma frame_refreshData:
  "L (refreshData env s) = L s"
  "map_supabase (refreshData env s) = map_supabase s"
proof -
  have "L (refreshData env s) = L s \<and> map_supabase (refreshData env s) = map_supabase s"
  proof (cases "mapInstance s")
    case None
    then show ?thesis by (simp add: refreshData_no_map)
  next
    case (Some m)
    then show ?thesis by (simp add: refreshData_map frame_fetchReports)
  qed
  then show "L (refreshData env s) = L s"
    "map_supabase (refreshData env s) = map_supabase s" by simp_all
qed

lemma map_ready_refreshData: "map_ready (refreshData env s) = map_ready s"
  by (cases "mapInstance s")
     (simp_all add: map_ready_def markersLayer_refreshData mapInstance_refreshData
        frame_refreshData)

lemma rendered_markers_ready:
  assumes "map_supabase s" and "map_ready s"
  shows "rendered_markers (refreshData env s) = List.map_filter (marker_of env) (fetched env)"
proof -
  from assms(2) obtain m where "mapInstance s = Some m" by (auto simp: map_ready_def)
  with assms show ?thesis
    by (simp add: rendered_markers_def markersLayer_refreshData mapInstance_refreshData)
qed

lemma valid_report_iff:
  "valid_report r \<longleftrightarrow>
     (\<exists>lat lng. pr_latitude r = Some lat \<and> pr_longitude r = Some lng \<and> lat \<noteq> NaN \<and> lng \<noteq> NaN)"
proof (cases "pr_latitude r")
  case None
  then show ?thesis by (simp add: valid_report_def)
next
  case (Some lat)
  show ?thesis
  proof (cases "pr_longitude r")
    case None
    with Some show ?thesis by (simp add: valid_report_def)
  next
    case (Some lng)
    with \<open>pr_latitude r = Some lat\<close> show ?thesis
      by (cases lat; cases lng) (simp_all add: valid_report_def)
  qed
qed

lemma map_filter_valid:
  "List.map_filter (marker_of env) (filter valid_report rs) = List.map_filter (marker_of env) rs"
proof (induction rs)
  case Nil
  show ?case by simp
next
  case (Cons r rs)
  show ?case
  proof (cases "valid_report r")
    case True
    with Cons show ?thesis by (simp split: option.split)
  next
    case False
    then have "marker_of env r = None" by (simp add: marker_of_None_iff)
    with False Cons show ?thesis by simp
  qed
qed

lemma marker_positions:
  "map (\<lambda>m. (Some (marker_lat m), Some (marker_lng m))) (List.map_filter (marker_of env) rs) =
   map (\<lambda>r. (pr_latitude r, pr_longitude r)) (filter valid_report rs)"
proof (induction rs)
  case Nil
  show ?case by simp
next
  case (Cons r rs)
  show ?case
  proof (cases "marker_of env r")
    case None
    then have "\<not> valid_report r" by (simp add: marker_of_None_iff)
    with None Cons show ?thesis by simp
  next
    case (Some mk)
    then have v: "valid_report r" using marker_of_None_iff [of env r] by simp
    from Some have "Some (marker_lat mk) = pr_latitude r \<and> Some (marker_lng mk) = pr_longitude r"
      by (auto simp: marker_of_def split: option.splits if_splits)
    with Some v Cons show ?thesis by simp
  qed
qed

lemma no_error_in_skip_warnings:
  "filter is_console_error (map skip_warning rs) = []"
  by (induction rs) (simp_all add: skip_warning_def)

lemma updateMarkers_no_error:
  assumes "map_ready s"
  shows "filter is_console_error (map_console (updateMarkers env s)) =
         filter is_console_error (map_console s)"
proof -
  from assms obtain m old where "mapInstance s = Some m" "markersLayer s = Some old" "L s"
    by (auto simp: map_ready_def)
  from updateMarkers_ready [OF this, of env] show ?thesis
    by (simp add: no_error_in_skip_warnings)
qed

text \<open>
  Claim C4. When the guards of \<open>updateMarkers\<close> pass, the layer group holds afterwards
  the expected markers of the reports, in order, and no error was raised and caught on
  the way. A report has no marker exactly when its latitude or longitude is null or NaN;
  the markers sit at the coordinates of the valid reports, one for each. Leaving the
  invalid reports out of the list changes nothing in the markers.
\<close>

theorem updateMarkers_skips_invalid:
  "(map_ready s \<longrightarrow>
      markersLayer (updateMarkers env s) = Some (List.map_filter (marker_of env) (reports s)) \<and>
      filter is_console_error (map_console (updateMarkers env s)) =
        filter is_console_error (map_console s))
   \<and> (marker_of env r = None \<longleftrightarrow>
        pr_latitude r = None \<or> pr_longitude r = None \<or>
        pr_latitude r = Some NaN \<or> pr_longitude r = Some NaN)
   \<and> map (\<lambda>m. (Some (marker_lat m), Some (marker_lng m)))
        (List.map_filter (marker_of env) (reports s)) =
      map (\<lambda>r. (pr_latitude r, pr_longitude r)) (filter valid_report (reports s))
   \<and> markersLayer (updateMarkers env (s\<lparr>reports := filter valid_report (reports s)\<rparr>)) =
      markersLayer (updateMarkers env s)"
proof -
  have a: "map_ready s \<longrightarrow>
      markersLayer (updateMarkers env s) = Some (List.map_filter (marker_of env) (reports s)) \<and>
      filter is_console_error (map_console (updateMarkers env s)) =
        filter is_console_error (map_console s)"
    by (simp add: markersLayer_updateMarkers updateMarkers_no_error)
  have b: "marker_of env r = None \<longleftrightarrow>
        pr_latitude r = None \<or> pr_longitude r = None \<or>
        pr_latitude r = Some NaN \<or> pr_longitude r = Some NaN"
    unfolding marker_of_None_iff valid_report_iff by auto
  have c: "markersLayer (updateMarkers env (s\<lparr>reports := filter valid_report (reports s)\<rparr>)) =
      markersLayer (updateMarkers env s)"
    by (simp add: markersLayer_updateMarkers map_ready_def map_filter_valid)
  from a b c marker_positions show ?thesis by blast
qed

theorem updateMarkers_skips_invalid_witness:
  "map_ready (mounted_map\<lparr>reports := stored_reports\<rparr>) \<and>
   map_option positions
     (markersLayer (updateMarkers map_env_ok (mounted_map\<lparr>reports := stored_reports\<rparr>))) =
     Some [(Finite 27.7, Finite 85.3), (Finite 27.71, Finite 85.32)] \<and>
   markersLayer (updateMarkers map_env_ok (mounted_map\<lparr>reports := [report_a, report_b]\<rparr>)) =
   markersLayer (updateMarkers map_env_ok (mounted_map\<lparr>reports := stored_reports\<rparr>))"
proof -
  let ?s = "mounted_map\<lparr>reports := stored_reports\<rparr>"
  have r: "map_ready ?s" by (simp add: map_ready_def mounted_map_def)
  have f: "filter valid_report (reports ?s) = [report_a, report_b]"
    by (simp add: stored_reports_def valid_report_def report_a_def report_b_def
        report_null_def report_nan_def)
  have m: "List.map_filter (marker_of map_env_ok) (reports ?s) =
     [\<lparr>marker_lat = Finite 27.7, marker_lng = Finite 85.3,
        marker_popup = popupContent map_env_ok report_a\<rparr>,
      \<lparr>marker_lat = Finite 27.71, marker_lng = Finite 85.32,
        marker_popup = popupContent map_env_ok report_b\<rparr>]"
    by (simp add: stored_reports_def marker_of_def report_a_def report_b_def
        report_null_def report_nan_def)
  from updateMarkers_skips_invalid [of ?s map_env_ok report_a] r f m show ?thesis
    by (simp add: positions_def)
qed

lemma length_markers:
  "length (List.map_filter (marker_of env) rs) = length (filter valid_report rs)"
proof -
  have "length (map (\<lambda>m. (Some (marker_lat m), Some (marker_lng m)))
          (List.map_filter (marker_of env) rs)) =
        length (map (\<lambda>r. (pr_latitude r, pr_longitude r)) (filter valid_report rs))"
    by (simp only: marker_positions)
  then show ?thesis by simp
qed

lemma refreshData_twice_markersLayer:
  "markersLayer (refreshData env (refreshData env s)) = markersLayer (refreshData env s)"
  by (simp add: markersLayer_refreshData map_ready_refreshData frame_refreshData)

lemma refreshData_twice_mapInstance:
  "mapInstance (refreshData env (refreshData env s)) = mapInstance (refreshData env s)"
  by (cases "mapInstance s")
     (simp_all add: mapInstance_refreshData map_ready_refreshData frame_refreshData)

text \<open>
  Claim C7. A second \<open>refreshData\<close> with the same answer of the backend leaves the
  layer group and the markers on the map as the first one left them. When the map is
  ready and the backend client is there, the markers after a refresh are the expected
  markers of the fetched reports, whatever markers were there before: one for each
  valid report, none twice.
\<close>

theorem refreshData_idempotent:
  "markersLayer (refreshData env (refreshData env s)) = markersLayer (refreshData env s)
   \<and> rendered_markers (refreshData env (refreshData env s)) = rendered_markers (refreshData env s)
   \<and> (map_supabase s \<and> map_ready s \<longrightarrow>
        rendered_markers (refreshData env s) = List.map_filter (marker_of env) (fetched env) \<and>
        length (rendered_markers (refreshData env s)) = length (filter valid_report (fetched env)))"
proof -
  have "rendered_markers (refreshData env (refreshData env s)) = rendered_markers (refreshData env s)"
    by (simp only: rendered_markers_def refreshData_twice_markersLayer refreshData_twice_mapInstance)
  then show ?thesis
    by (simp add: refreshData_twice_markersLayer rendered_markers_ready length_markers)
qed

theorem refreshData_idempotent_witness:
  "map_supabase mounted_map \<and> map_ready mounted_map \<and>
   positions (rendered_markers (refreshData map_env_ok mounted_map)) =
     [(Finite 27.7, Finite 85.3), (Finite 27.71, Finite 85.32)] \<and>
   positions (rendered_markers (refreshData map_env_ok (refreshData map_env_ok mounted_map))) =
     [(Finite 27.7, Finite 85.3), (Finite 27.71, Finite 85.32)]"
proof -
  have c: "map_supabase mounted_map" by (simp add: mounted_map_def)
  have r: "map_ready mounted_map" by (simp add: map_ready_def mounted_map_def)
  have f: "fetched map_env_ok = stored_reports"
    by (simp add: fetched_def map_env_ok_def)
  have m: "positions (List.map_filter (marker_of map_env_ok) stored_reports) =
     [(Finite 27.7, Finite 85.3), (Finite 27.71, Finite 85.32)]"
    by (simp add: stored_reports_def marker_of_def report_a_def report_b_def
        report_null_def report_nan_def positions_def)
  from refreshData_idempotent [of map_env_ok mounted_map] c r f m show ?thesis by simp
qed

text \<open>
  Claim C8. While the map instance does not exist, \<open>refreshData\<close> only writes a warning
  to the console: every variable of the component is as before, and no query was sent
  to the backend.
\<close>

theorem refreshData_before_init_noop:
  assumes "mapInstance s = None"
  shows "refreshData env s =
           s\<lparr>map_console := map_console s @
             [ConsoleWarn (lit ''[MapDisplay] refreshData called, but map is not ready.'')]\<rparr>
         \<and> queries (refreshData env s) = queries s"
  using assms by (simp add: refreshData_no_map)

theorem refreshData_before_init_noop_witness:
  "mapInstance (initial_map True) = None \<and>
   refreshData map_env_ok (initial_map True) =
     (initial_map True)\<lparr>map_console :=
        [ConsoleWarn (lit ''[MapDisplay] refreshData called, but map is not ready.'')]\<rparr> \<and>
   queries (refreshData map_env_ok (initial_map True)) = []"
proof -
  have h: "mapInstance (initial_map True) = None" by (simp add: initial_map_def)
  from refreshData_before_init_noop [OF h, of map_env_ok] h show ?thesis by (simp add: initial_map_def)
qed

text \<open>
  The references stay consistent through every operation of the component, from the
  state in which it is created.
\<close>

lemma refs_consistent_iff:
  "refs_consistent s \<longleftrightarrow>
     map_ready s \<or> (mapInstance s = None \<and> markersLayer s = None \<and> \<not> L s)"
  by (auto simp: refs_consistent_def map_ready_def)

lemma refs_consistent_initial: "refs_consistent (initial_map client)"
  by (simp add: refs_consistent_def initial_map_def)

lemma refs_consistent_updateMarkers:
  "refs_consistent s \<Longrightarrow> refs_consistent (updateMarkers env s)"
  unfolding refs_consistent_iff
  by (auto simp: map_ready_updateMarkers markersLayer_updateMarkers mapInstance_updateMarkers
      frame_updateMarkers)

lemma refs_consistent_fetchReports:
  "refs_consistent s \<Longrightarrow> refs_consistent (fetchReports env s)"
  unfolding refs_consistent_iff
  by (auto simp: map_ready_fetchReports markersLayer_fetchReports mapInstance_fetchReports
      frame_fetchReports)

lemma refs_consistent_refreshData:
  "refs_consistent s \<Longrightarrow> refs_consistent (refreshData env s)"
  unfolding refs_consistent_iff
  by (auto simp: map_ready_refreshData markersLayer_refreshData mapInstance_refreshData
      frame_refreshData)

lemma refs_consistent_cleanup: "refs_consistent (cleanup s)"
  by (cases "mapInstance s") (simp_all add: refs_consistent_def cleanup_def clog_def)

lemma refs_consistent_init_failed: "refs_consistent (init_failed err s)"
  by (simp add: refs_consistent_def init_failed_def clog_def)

lemma refs_consistent_init_try: "refs_consistent (init_try env s)"
proof (cases "import_leaflet env")
  case (Inl err)
  then show ?thesis by (simp add: init_try_def refs_consistent_init_failed)
next
  case (Inr loaded)
  show ?thesis
  proof (cases loaded)
    case False
    with Inr show ?thesis by (simp add: init_try_def refs_consistent_init_failed)
  next
    case True
    show ?thesis
    proof (cases "L_map env")
      case (Some err)
      with Inr True show ?thesis by (simp add: init_try_def refs_consistent_init_failed)
    next
      case None
      have "refs_consistent (fetchReports env s')" if "map_ready s'" for s'
        using that by (simp add: refs_consistent_iff map_ready_fetchReports)
      then show ?thesis
        using Inr True None by (simp add: init_try_def Let_def map_ready_def)
    qed
  qed
qed

lemma refs_consistent_frame:
  "refs_consistent (s\<lparr>isLoading := b\<rparr>) = refs_consistent s"
  "refs_consistent (s\<lparr>mapError := x\<rparr>) = refs_consistent s"
  "refs_consistent (clog e s) = refs_consistent s"
  by (simp_all add: refs_consistent_def clog_def)

lemma refs_consistent_initializeMap:
  "refs_consistent s \<Longrightarrow> refs_consistent (initializeMap env s)"
  by (simp add: initializeMap_def refs_consistent_frame refs_consistent_init_try)

text \<open>The initialization with the four stored reports shows the two valid ones.\<close>

lemma initializeMap_mounts:
  "map_ready (initializeMap map_env_ok ((initial_map True)\<lparr>mapContainer := True\<rparr>)) \<and>
   positions (rendered_markers (initializeMap map_env_ok ((initial_map True)\<lparr>mapContainer := True\<rparr>)))
     = [(Finite 27.7, Finite 85.3), (Finite 27.71, Finite 85.32)]"
proof -
  let ?s = "(initial_map True)\<lparr>mapContainer := True, L := True, markersLayer := Some [],
     mapInstance := Some \<lparr>map_center = initialCoords, map_zoom = initialZoom,
        tile_layers = [lit ''https://{s}.tile.openstreetmap.org/{z}/{x}/{y}.png''],
        has_markers_layer = True\<rparr>\<rparr>"
  have i: "initializeMap map_env_ok ((initial_map True)\<lparr>mapContainer := True\<rparr>) =
     (fetchReports map_env_ok ?s)\<lparr>isLoading := False\<rparr>"
    by (simp add: initializeMap_def init_try_def Let_def map_env_ok_def initial_map_def)
  have r: "map_ready ?s" by (simp add: map_ready_def)
  have c: "map_supabase ?s" by (simp add: initial_map_def)
  have f: "fetched map_env_ok = stored_reports"
    by (simp add: fetched_def map_env_ok_def)
  have m: "positions (List.map_filter (marker_of map_env_ok) stored_reports) =
     [(Finite 27.7, Finite 85.3), (Finite 27.71, Finite 85.32)]"
    by (simp add: stored_reports_def marker_of_def report_a_def report_b_def
        report_null_def report_nan_def positions_def)
  have ml: "markersLayer (fetchReports map_env_ok ?s) =
      Some (List.map_filter (marker_of map_env_ok) stored_reports)"
    using r c f by (simp add: markersLayer_fetchReports)
  have mi: "mapInstance (fetchReports map_env_ok ?s) = mapInstance ?s"
    using r c by (simp add: mapInstance_fetchReports)
  have "map_ready (fetchReports map_env_ok ?s)"
    using r by (simp add: map_ready_fetchReports)
  then show ?thesis
    using m by (simp add: i rendered_markers_def ml mi map_ready_def)
qed

lemma rendered_markers_consistent:
  assumes "refs_consistent s" and "map_supabase s" and "fetched env = []"
  shows "rendered_markers (fetchReports env s) = []"
proof (cases "map_ready s")
  case True
  with assms show ?thesis
    by (simp add: rendered_markers_def markersLayer_fetchReports split: option.splits)
next
  case False
  with assms(1) have "mapInstance s = None" by (auto simp: refs_consistent_def map_ready_def)
  with False show ?thesis
    by (simp add: rendered_markers_def mapInstance_fetchReports)
qed

text \<open>
  Claim C10. When the query of \<open>fetchReports\<close> fails, the stored report list is empty
  afterwards, the error message is set, and the state is the one of \<open>updateMarkers\<close>
  run on a state with an empty report list. With the map ready the layer group is then
  empty; in every state with consistent references no marker is left on the map.
\<close>

theorem fetchReports_error_clears_markers:
  assumes "map_supabase s" and "res_error (select_reports env) = Some err"
  shows "reports (fetchReports env s) = []
       \<and> mapError (fetchReports env s) = Some (lit ''Failed to load reports: '' @ message err)
       \<and> (\<exists>s'. reports s' = [] \<and> fetchReports env s = updateMarkers env s')
       \<and> (map_ready s \<longrightarrow> markersLayer (fetchReports env s) = Some [])
       \<and> (refs_consistent s \<longrightarrow> rendered_markers (fetchReports env s) = [])"
proof -
  have f: "fetched env = []" using assms(2) by (simp add: fetched_def)
  from fetchReports_client [OF assms(1), of env] obtain s' where
    s': "fetchReports env s = updateMarkers env s'" "reports s' = fetched env"
    "mapError s' = map_option (\<lambda>e. lit ''Failed to load reports: '' @ message e)
                           (res_error (select_reports env))"
    by blast
  have 1: "reports (fetchReports env s) = []"
    using s' f by (simp add: frame_updateMarkers)
  have 2: "mapError (fetchReports env s) = Some (lit ''Failed to load reports: '' @ message err)"
    using s' assms(2) by (simp add: frame_updateMarkers)
  have 3: "\<exists>s'. reports s' = [] \<and> fetchReports env s = updateMarkers env s'"
    using s' f by auto
  have 4: "map_ready s \<longrightarrow> markersLayer (fetchReports env s) = Some []"
    using assms(1) f by (simp add: markersLayer_fetchReports)
  have 5: "refs_consistent s \<longrightarrow> rendered_markers (fetchReports env s) = []"
    using rendered_markers_consistent [OF _ assms(1) f] by blast
  from 1 2 3 4 5 show ?thesis by blast
qed

theorem fetchReports_error_clears_markers_witness:
  "map_supabase mounted_map \<and> refs_consistent mounted_map \<and>
   rendered_markers mounted_map \<noteq> [] \<and>
   reports (fetchReports map_env_failing mounted_map) = [] \<and>
   mapError (fetchReports map_env_failing mounted_map) =
     Some (lit ''Failed to load reports: '' @ lit ''Failed to fetch'') \<and>
   markersLayer (fetchReports map_env_failing mounted_map) = Some [] \<and>
   rendered_markers (fetchReports map_env_failing mounted_map) = []"
proof -
  have c: "map_supabase mounted_map" by (simp add: mounted_map_def)
  have e: "res_error (select_reports map_env_failing) = Some \<lparr>message = lit ''Failed to fetch''\<rparr>"
    by (simp add: map_env_failing_def)
  have r: "map_ready mounted_map" by (simp add: map_ready_def mounted_map_def)
  have i: "refs_consistent mounted_map" by (simp add: refs_consistent_def mounted_map_def)
  have o: "rendered_markers mounted_map \<noteq> []" by (simp add: rendered_markers_def mounted_map_def)
  from fetchReports_error_clears_markers [OF c e] c r i o show ?thesis by simp
qed

end
